theory Spec2Isabelle
  imports Complex_Main "HOL-Library.Sublist" "HOL-Library.Char_ord" "HOL-Library.List_Lexorder"
begin

section \<open>Errors (package \<open>vterrors\<close>)\<close>

text \<open>
  A Go \<open>error\<close> is a \<open>verror option\<close>: \<open>None\<close> is \<open>nil\<close>.  The canonical
  codes are those of the boundary's taxonomy.  \<open>Fundamental\<close> is what \<open>New\<close> and
  \<open>Errorf\<close> build, \<open>Wrapping\<close> what \<open>Wrap\<close> builds; \<open>Plain\<close> is any other
  error value (\<open>errors.New\<close>, \<open>fmt.Errorf\<close>, an error of a collaborator), and
  \<open>Panic\<close> stands for a run-time panic of the Go code (an index out of range).
\<close>

datatype vtrpcCode = OK | CANCELED | UNKNOWN | INVALID_ARGUMENT | DEADLINE_EXCEEDED | NOT_FOUND
  | ALREADY_EXISTS | PERMISSION_DENIED | RESOURCE_EXHAUSTED | FAILED_PRECONDITION | ABORTED
  | OUT_OF_RANGE | UNIMPLEMENTED | INTERNAL | UNAVAILABLE | DATA_LOSS

datatype verror =
    Fundamental vtrpcCode string
  | Wrapping verror string
  | ContextCanceled
  | ContextDeadlineExceeded
  | Plain string
  | Panic string

definition Errorf :: "vtrpcCode \<Rightarrow> string \<Rightarrow> verror" where
  "Errorf code msg = Fundamental code msg"

definition Wrap :: "verror option \<Rightarrow> string \<Rightarrow> verror option" where
  "Wrap err message = (case err of None \<Rightarrow> None | Some e \<Rightarrow> Some (Wrapping e message))"

definition Wrapf :: "verror option \<Rightarrow> string \<Rightarrow> verror option" where
  "Wrapf err message = Wrap err message"

fun Cause :: "verror \<Rightarrow> verror option" where
  "Cause (Wrapping cause msg) = Some cause"
| "Cause e = None"

fun errorCode :: "verror \<Rightarrow> vtrpcCode" where
  "errorCode (Fundamental code msg) = code"
| "errorCode (Wrapping cause msg) = errorCode cause"
| "errorCode ContextCanceled = CANCELED"
| "errorCode ContextDeadlineExceeded = DEADLINE_EXCEEDED"
| "errorCode (Plain msg) = UNKNOWN"
| "errorCode (Panic msg) = UNKNOWN"

definition Code :: "verror option \<Rightarrow> vtrpcCode" where
  "Code err = (case err of None \<Rightarrow> OK | Some e \<Rightarrow> errorCode e)"

fun Error :: "verror \<Rightarrow> string" where
  "Error (Fundamental code msg) = msg"
| "Error (Wrapping cause msg) = msg @ '': '' @ Error cause"
| "Error ContextCanceled = ''context canceled''"
| "Error ContextDeadlineExceeded = ''context deadline exceeded''"
| "Error (Plain msg) = msg"
| "Error (Panic msg) = msg"

fun codeString :: "vtrpcCode \<Rightarrow> string" where
  "codeString OK = ''OK''"
| "codeString CANCELED = ''CANCELED''"
| "codeString UNKNOWN = ''UNKNOWN''"
| "codeString INVALID_ARGUMENT = ''INVALID_ARGUMENT''"
| "codeString DEADLINE_EXCEEDED = ''DEADLINE_EXCEEDED''"
| "codeString NOT_FOUND = ''NOT_FOUND''"
| "codeString ALREADY_EXISTS = ''ALREADY_EXISTS''"
| "codeString PERMISSION_DENIED = ''PERMISSION_DENIED''"
| "codeString RESOURCE_EXHAUSTED = ''RESOURCE_EXHAUSTED''"
| "codeString FAILED_PRECONDITION = ''FAILED_PRECONDITION''"
| "codeString ABORTED = ''ABORTED''"
| "codeString OUT_OF_RANGE = ''OUT_OF_RANGE''"
| "codeString UNIMPLEMENTED = ''UNIMPLEMENTED''"
| "codeString INTERNAL = ''INTERNAL''"
| "codeString UNAVAILABLE = ''UNAVAILABLE''"
| "codeString DATA_LOSS = ''DATA_LOSS''"

text \<open>
  The \<open>%v\<close> verb (the \<open>Format\<close> methods, with the stack traces switched off as by
  default); \<open>newline\<close> is the line feed.
\<close>

definition newline :: string where
  "newline = [CHR 0x0A]"

fun formatV :: "verror \<Rightarrow> string" where
  "formatV (Fundamental code msg) = ''Code: '' @ codeString code @ newline @ msg @ newline"
| "formatV (Wrapping cause msg) = formatV cause @ newline @ msg"
| "formatV e = Error e"

definition formatErr :: "verror option \<Rightarrow> string" where
  "formatErr err = (case err of None \<Rightarrow> ''<nil>'' | Some e \<Rightarrow> formatV e)"

text \<open>Decimal printing of integers (\<open>%d\<close>).\<close>

fun showNat :: "nat \<Rightarrow> string" where
  "showNat n = (if n < 10 then [char_of (48 + n)] else showNat (n div 10) @ [char_of (48 + n mod 10)])"

definition showInt :: "int \<Rightarrow> string" where
  "showInt i = (if i < 0 then CHR ''-'' # showNat (nat (- i)) else showNat (nat i))"

fun joinWith :: "string \<Rightarrow> string list \<Rightarrow> string" where
  "joinWith sep [] = []"
| "joinWith sep [x] = x"
| "joinWith sep (x # y # ys) = x @ sep @ joinWith sep (y # ys)"

section \<open>Workflow data model (package \<open>workflow\<close>)\<close>

datatype TabletType = PRIMARY | REPLICA | RDONLY | OtherTabletType string

datatype VReplicationWorkflowType =
  Materialize | MoveTables | CreateLookupIndex | Migrate | Reshard | OnlineDDL

datatype MigrationType = TABLES | SHARDS

text \<open>\<open>Type\<close> is the workflow type of a \<open>State\<close>; \<open>TypeUnset\<close> is its zero value.\<close>

datatype Type = TypeUnset | TypeMoveTables | TypeReshard | TypeMigrate

datatype TrafficSwitchDirection = DirectionForward | DirectionBackward | DirectionOther int

record ShardInfo =
  ShardName :: string
  IsPrimaryServing :: bool

text \<open>
  The traffic switcher, with the fields the verbs read.  \<open>isMultiTenant\<close> is the
  result of \<open>IsMultiTenantMigration()\<close>, \<open>sourceKSSharded\<close> the \<open>Sharded\<close> flag of
  the source keyspace schema (\<open>None\<close> when the schema or its keyspace is absent),
  \<open>SourceShards\<close> and \<open>TargetShards\<close> the results of the methods of these names.
\<close>

record trafficSwitcher =
  workflow :: string
  reverseWorkflow :: string
  migrationId :: int
  sourceKeyspace :: string
  targetKeyspace :: string
  tables :: "string list"
  frozen :: bool
  workflowType :: VReplicationWorkflowType
  migrationType :: MigrationType
  isPartialMigration :: bool
  isMultiTenant :: bool
  tenantId :: string
  sourceKSSharded :: "bool option"
  SourceShards :: "ShardInfo list"
  TargetShards :: "ShardInfo list"
  force :: bool

record State =
  Workflow :: string
  SourceKeyspace :: string
  TargetKeyspace :: string
  WorkflowType :: Type
  ReplicaCellsSwitched :: "string list"
  ReplicaCellsNotSwitched :: "string list"
  RdonlyCellsSwitched :: "string list"
  RdonlyCellsNotSwitched :: "string list"
  WritesSwitched :: bool
  IsPartialMigration :: bool
  ShardsAlreadySwitched :: "string list"
  ShardsNotYetSwitched :: "string list"
  IsReverse :: bool

record ShardRoutingRule =
  FromKeyspace :: string
  ToKeyspace :: string
  Shard :: string

record Stream =
  StreamState :: string
  Message :: string

text \<open>
  What \<open>GetWorkflow\<close> reports of a workflow.  \<open>ShardStreams\<close> is a Go map; the
  list holds its entries in the order in which a \<open>range\<close> over it visits them.
\<close>

record WorkflowInfo =
  MaxVReplicationTransactionLag :: int
  ShardStreams :: "(string \<times> Stream list) list"

text \<open>
  The topology as \<open>getWorkflowState\<close> reads it.  \<open>buildTrafficSwitcher\<close> takes the
  target keyspace, the workflow name and the \<open>IgnoreSourceKeyspace\<close> option.
  \<open>updateKeyspaceRoutingState\<close> rewrites the state it is given from the keyspace
  routing rules; \<open>updateKeyspaceRoutingStateNil\<close> is its outcome on a nil state.
\<close>

record topoView =
  buildTrafficSwitcher :: "string \<Rightarrow> string \<Rightarrow> bool \<Rightarrow> verror + trafficSwitcher"
  updateKeyspaceRoutingState :: "string \<Rightarrow> string \<Rightarrow> State \<Rightarrow> verror + State"
  updateKeyspaceRoutingStateNil :: "string \<Rightarrow> string \<Rightarrow> verror option"
  GetShardRoutingRules :: "verror + ShardRoutingRule list"
  GetCellsWithTableReadsSwitched ::
    "string \<Rightarrow> string \<Rightarrow> string \<Rightarrow> TabletType \<Rightarrow> verror + (string list \<times> string list)"
  GetRoutingRules :: "verror + (string \<Rightarrow> string list)"
  GetCellsWithShardReadsSwitched ::
    "string \<Rightarrow> ShardInfo \<Rightarrow> TabletType \<Rightarrow> verror + (string list \<times> string list)"

definition reverseSuffix :: string where
  "reverseSuffix = ''_reverse''"

definition hasSuffix :: "string \<Rightarrow> string \<Rightarrow> bool" where
  "hasSuffix s suf = (length suf \<le> length s \<and> drop (length s - length suf) s = suf)"

text \<open>
  Modelled from the spec: \<open>ReverseWorkflowName\<close> is declared outside the sources at
  hand.  The name \<open><name>_reverse\<close> is the reverse twin of \<open><name>\<close>, and the reverse
  of the reverse is the name itself.
\<close>

definition ReverseWorkflowName :: "string \<Rightarrow> string" where
  "ReverseWorkflowName name =
     (if hasSuffix name reverseSuffix then take (length name - length reverseSuffix) name
      else name @ reverseSuffix)"

definition shardRulesState :: "string \<Rightarrow> string \<Rightarrow> ShardRoutingRule list \<Rightarrow> State \<Rightarrow> State" where
  "shardRulesState sourceKs targetKs rules state =
     foldl (\<lambda>st rule.
       if ToKeyspace rule = sourceKs
         then st\<lparr>ShardsNotYetSwitched := ShardsNotYetSwitched st @ [Shard rule]\<rparr>
       else if ToKeyspace rule = targetKs
         then st\<lparr>ShardsAlreadySwitched := ShardsAlreadySwitched st @ [Shard rule]\<rparr>
       else st) state rules"

definition tableWritesSwitched :: "(string \<Rightarrow> string list) \<Rightarrow> string \<Rightarrow> string list \<Rightarrow> bool" where
  "tableWritesSwitched globalRules sourceKs tbls =
     list_ex (\<lambda>table.
       let ruleKey = sourceKs @ ''.'' @ table; rr = globalRules ruleKey
       in (case rr of [] \<Rightarrow> False | r # rs \<Rightarrow> r \<noteq> ruleKey)) tbls"

text \<open>The state \<open>getWorkflowState\<close> starts from.\<close>

definition newState :: "trafficSwitcher \<Rightarrow> string \<Rightarrow> string \<Rightarrow> State" where
  "newState ts targetKs workflowName =
     \<lparr>Workflow = workflowName, SourceKeyspace = sourceKeyspace ts,
      TargetKeyspace = targetKs, WorkflowType = TypeUnset,
      ReplicaCellsSwitched = [], ReplicaCellsNotSwitched = [],
      RdonlyCellsSwitched = [], RdonlyCellsNotSwitched = [],
      WritesSwitched = False, IsPartialMigration = isPartialMigration ts,
      ShardsAlreadySwitched = [], ShardsNotYetSwitched = [], IsReverse = False\<rparr>"

text \<open>
  The branch of \<open>getWorkflowState\<close> for a migration of tables, after the workflow
  type of the state is set: from the keyspace routing rules (multi-tenant), from the
  shard routing rules (partial), or from the table routing rules.
\<close>

definition moveTablesState ::
  "topoView \<Rightarrow> trafficSwitcher \<Rightarrow> string \<Rightarrow> string \<Rightarrow> string \<Rightarrow> State \<Rightarrow> verror + State" where
  "moveTablesState tp ts sourceKs targetKs workflowName state =
     (case tables ts of
        [] \<Rightarrow> Inl (Errorf FAILED_PRECONDITION
                (''no tables in workflow '' @ targetKs @ ''.'' @ workflowName))
      | table # others \<Rightarrow>
          if isMultiTenant ts then updateKeyspaceRoutingState tp sourceKs targetKs state
          else if isPartialMigration ts then
            (case GetShardRoutingRules tp of
               Inl err \<Rightarrow> Inl err
             | Inr rules \<Rightarrow> Inr (shardRulesState sourceKs targetKs rules state))
          else
            (case GetCellsWithTableReadsSwitched tp sourceKs targetKs table RDONLY of
               Inl err \<Rightarrow> Inl err
             | Inr (rdSw, rdNot) \<Rightarrow>
                (case GetCellsWithTableReadsSwitched tp sourceKs targetKs table REPLICA of
                   Inl err \<Rightarrow> Inl err
                 | Inr (repSw, repNot) \<Rightarrow>
                    (case GetRoutingRules tp of
                       Inl err \<Rightarrow> Inl err
                     | Inr globalRules \<Rightarrow>
                         Inr (state\<lparr>RdonlyCellsSwitched := rdSw,
                               RdonlyCellsNotSwitched := rdNot,
                               ReplicaCellsSwitched := repSw,
                               ReplicaCellsNotSwitched := repNot,
                               WritesSwitched :=
                                 tableWritesSwitched globalRules sourceKs (tables ts)\<rparr>)))))"

text \<open>
  The branch for a migration of shards.  The source reads the first shard of the
  list; on an empty list the Go code panics.
\<close>

definition reshardState :: "topoView \<Rightarrow> trafficSwitcher \<Rightarrow> string \<Rightarrow> State \<Rightarrow> verror + State" where
  "reshardState tp ts targetKs state =
     (case (if IsReverse state then TargetShards ts else SourceShards ts) of
        [] \<Rightarrow> Inl (Panic ''index out of range [0] with length 0'')
      | shard # others \<Rightarrow>
          (case GetCellsWithShardReadsSwitched tp targetKs shard RDONLY of
             Inl err \<Rightarrow> Inl err
           | Inr (rdSw, rdNot) \<Rightarrow>
              (case GetCellsWithShardReadsSwitched tp targetKs shard REPLICA of
                 Inl err \<Rightarrow> Inl err
               | Inr (repSw, repNot) \<Rightarrow>
                   Inr (state\<lparr>RdonlyCellsSwitched := rdSw,
                         RdonlyCellsNotSwitched := rdNot,
                         ReplicaCellsSwitched := repSw,
                         ReplicaCellsNotSwitched := repNot,
                         WritesSwitched := \<not> IsPrimaryServing shard\<rparr>))))"

definition getWorkflowState ::
  "topoView \<Rightarrow> string \<Rightarrow> string \<Rightarrow> bool \<Rightarrow> verror + (trafficSwitcher \<times> State)" where
  "getWorkflowState tp targetKs workflowName ignoreSource =
     (case buildTrafficSwitcher tp targetKs workflowName ignoreSource of
        Inl err \<Rightarrow> Inl err
      | Inr ts \<Rightarrow>
          let state0 = newState ts targetKs workflowName in
          if workflowType ts = CreateLookupIndex then Inr (ts, state0)
          else
            let rev = hasSuffix workflowName reverseSuffix;
                state1 = (if rev then state0\<lparr>IsReverse := True\<rparr> else state0);
                sourceKs = (if rev then TargetKeyspace state0 else SourceKeyspace state0);
                targetKs' = (if rev then SourceKeyspace state0 else targetKs);
                workflowName' = (if rev then ReverseWorkflowName workflowName else workflowName);
                filled =
                  (if migrationType ts = TABLES
                   then moveTablesState tp ts sourceKs targetKs' workflowName'
                          (state1\<lparr>WorkflowType := TypeMoveTables\<rparr>)
                   else reshardState tp ts targetKs' (state1\<lparr>WorkflowType := TypeReshard\<rparr>))
            in
            (case filled of
               Inl err \<Rightarrow> Inl err
             | Inr state3 \<Rightarrow>
                 Inr (ts, if workflowType ts = Migrate then state3\<lparr>WorkflowType := TypeMigrate\<rparr>
                          else state3)))"

section \<open>Collaborators and the call log\<close>

text \<open>
  Every call a verb makes on the topology server's locks, on the tablets or on the
  switcher is an \<open>action\<close>; a verb returns its result together with the log of the
  actions it made, in order.  The flag of a switcher action tells the dry-run switcher
  (which records) from the real one (which executes).  The queries
  \<open>getWorkflowState\<close> and \<open>GetWorkflow\<close> only read and are not logged.
\<close>

datatype action =
    LockName string string
  | UnlockName string
  | LockKeyspace bool string string
  | UnlockKeyspace bool string
  | CheckKeyspaceLocked nat string
  | RefreshTabletsByShard string string string
  | Validate
  | ValidateShardsHaveVReplicationPermissions
  | AreTabletsAvailableToStreamFrom
  | MirrorTableTraffic bool "TabletType list" rat
  | GetTargetSequenceMetadata
  | CheckJournals
  | BuildStreamMigrator
  | CancelMigration bool
  | StopSourceWrites bool
  | StopStreams bool
  | ExecuteLockTablesOnSource nat
  | GatherSourcePositions
  | GatherPositions
  | WaitForCatchup bool
  | MigrateStreams bool
  | ResetSequences bool
  | CreateReverseVReplication bool
  | InitTargetSequences bool
  | CreateJournals bool "string list"
  | AllowTargetWrites bool
  | ChangeRouting bool
  | StreamMigraterfinalize bool "string list"
  | StartReverseVReplication bool
  | FreezeTargetVReplication bool
  | GetCellInfoNames
  | DoCellsHaveRdonlyTablets
  | SwitchKeyspaceReads bool "TabletType list"
  | SwitchTableReads bool "string list" "TabletType list" bool TrafficSwitchDirection
  | SwitchShardReads bool "string list" "TabletType list" TrafficSwitchDirection
  | ValidateSrvKeyspace string string
  | FinalizeMigrateWorkflow string bool bool bool bool
  | DropSources bool bool bool bool bool
  | DropTargets bool bool bool
  | DeleteTenantData int
  | DeleteVReplicationWorkflow "string list"

record protoDuration =
  Seconds :: int
  Nanos :: int

text \<open>
  The collaborators.  \<open>outcome\<close> is the error an action returns (\<open>None\<close> when it
  succeeds); the other fields are the values the calls return.  \<open>DurationFromProto\<close>
  and \<open>parseTabletTypes\<close> are declared outside the sources at hand and are taken as
  they are: the former returns the duration in nanoseconds, whether the field was set,
  and an error; the latter returns \<open>(hasReplica, hasRdonly, hasPrimary)\<close> or an
  error.  \<open>topo\<close> is the topology when the verb starts, \<open>topoAfter\<close> the topology
  when it reloads the state at its end.
\<close>

record env =
  outcome :: "action \<Rightarrow> verror option"
  DurationFromProto :: "protoDuration option \<Rightarrow> int \<times> bool \<times> verror option"
  parseTabletTypes :: "TabletType list \<Rightarrow> verror + (bool \<times> bool \<times> bool)"
  topo :: topoView
  topoAfter :: topoView
  GetWorkflow :: "string \<Rightarrow> string \<Rightarrow> string list \<Rightarrow> verror + WorkflowInfo"
  refreshResult :: "string \<Rightarrow> string \<Rightarrow> bool \<times> string \<times> verror option"
  journalsExist :: bool
  journalWorkflows :: "string list"
  stoppedWorkflows :: "string list"
  targetSequenceMetadata :: "string list"
  cellInfoNames :: "string list"
  rdonlyTabletsExist :: bool
  dryRunLog :: "action list \<Rightarrow> string list"
  stateString :: "State \<Rightarrow> string"
  nowRFC822 :: string

type_synonym 'a logged = "(verror + 'a) \<times> action list"

definition second :: int where
  "second = 1000000000"

definition DefaultTimeout :: int where
  "DefaultTimeout = 30 * second"

text \<open>
  \<open>int64(d.Seconds())\<close>.  A \<open>time.Duration\<close> is a count of nanoseconds, and
  \<open>Seconds\<close> of the Go library computes
  \<open>float64(sec) + float64(nsec)/1e9\<close> for \<open>sec := d / Second\<close> and
  \<open>nsec := d % Second\<close> (the quotient rounded towards zero, the remainder of the
  sign of \<open>d\<close>).  Every conversion, the division and the addition yield a 64-bit
  float: the exact result rounded to the nearest number of 53 significant bits, a tie
  going to the even one.  Floats are modelled by the rationals they denote;
  \<open>binade q\<close> is the exponent \<open>k\<close> with \<open>2^k \<le> |q| < 2^(k+1)\<close>, and the
  spacing of the floats never falls below \<open>2^-1074\<close>.  The floats met here are far
  below the largest one, so that no infinity arises.  \<open>int64\<close> of a float drops
  its fraction.
\<close>

function bitLength :: "int \<Rightarrow> int" where
  "bitLength n = (if n \<le> 0 then 0 else 1 + bitLength (n div 2))"
  by auto

termination
  by (relation "measure nat") auto

declare bitLength.simps [simp del]

definition binade :: "rat \<Rightarrow> int" where
  "binade q =
     (let a = \<bar>q\<bar> in
      if 1 \<le> a then bitLength \<lfloor>a\<rfloor> - 1 else - bitLength (\<lceil>1 / a\<rceil> - 1))"

definition pow2 :: "int \<Rightarrow> rat" where
  "pow2 k = (if 0 \<le> k then 2 ^ nat k else 1 / 2 ^ nat (- k))"

definition roundHalfEven :: "rat \<Rightarrow> int" where
  "roundHalfEven q =
     (let f = \<lfloor>q\<rfloor>; r = q - of_int f in
      if r < 1 / 2 then f else if 1 / 2 < r then f + 1 else if even f then f else f + 1)"

definition float64 :: "rat \<Rightarrow> rat" where
  "float64 q =
     (if q = 0 then 0
      else let ulp = pow2 (max (binade q - 52) (- 1074))
           in of_int (roundHalfEven (q / ulp)) * ulp)"

definition durationSeconds :: "int \<Rightarrow> rat" where
  "durationSeconds d =
     (let sec = sgn d * (\<bar>d\<bar> div second); nsec = d - sec * second in
      float64 (float64 (of_int sec) + float64 (float64 (of_int nsec) / 1000000000)))"

definition int64 :: "rat \<Rightarrow> int" where
  "int64 q = (if q < 0 then - \<lfloor>- q\<rfloor> else \<lfloor>q\<rfloor>)"

definition wholeSeconds :: "int \<Rightarrow> int" where
  "wholeSeconds d = int64 (durationSeconds d)"

definition call :: "env \<Rightarrow> action \<Rightarrow> unit logged" where
  "call e a = (case outcome e a of None \<Rightarrow> (Inr (), [a]) | Some err \<Rightarrow> (Inl err, [a]))"

definition andThen :: "'a logged \<Rightarrow> ('a \<Rightarrow> 'b logged) \<Rightarrow> 'b logged" where
  "andThen m f =
     (case m of
        (Inl err, t) \<Rightarrow> (Inl err, t)
      | (Inr x, t) \<Rightarrow> (case f x of (r, t') \<Rightarrow> (r, t @ t')))"

text \<open>
  \<open>step e a message k\<close>: make the call \<open>a\<close>; when it fails, return its error wrapped
  with \<open>message\<close> (\<open>handleError\<close> of \<open>switchWrites\<close>; \<open>defaultErrorHandler\<close> of
  \<open>switchReads\<close>, declared outside the sources at hand, is taken to do the same);
  otherwise go on with \<open>k\<close>.
\<close>

definition step :: "env \<Rightarrow> action \<Rightarrow> string \<Rightarrow> 'a logged \<Rightarrow> 'a logged" where
  "step e a message k =
     (case outcome e a of
        Some err \<Rightarrow> (Inl (Wrapping err message), [a])
      | None \<Rightarrow> (case k of (r, t) \<Rightarrow> (r, a # t)))"

text \<open>\<open>plainStep\<close>: the same for a call whose error is returned as it is.\<close>

definition plainStep :: "env \<Rightarrow> action \<Rightarrow> 'a logged \<Rightarrow> 'a logged" where
  "plainStep e a k =
     (case outcome e a of
        Some err \<Rightarrow> (Inl err, [a])
      | None \<Rightarrow> (case k of (r, t) \<Rightarrow> (r, a # t)))"

text \<open>
  \<open>cancelStep\<close>: a step of \<open>switchWrites\<close> whose failure cancels the migration
  before the wrapped error is returned; when the cancellation fails too, both errors
  are folded into one of code \<open>CANCELED\<close>.
\<close>

definition cancelled :: "env \<Rightarrow> bool \<Rightarrow> verror option \<Rightarrow> verror option" where
  "cancelled e dry err =
     (case outcome e (CancelMigration dry) of
        None \<Rightarrow> err
      | Some cerr \<Rightarrow>
          Some (Errorf CANCELED (formatErr err @ newline @ newline @ formatV cerr)))"

definition cancelStep :: "env \<Rightarrow> bool \<Rightarrow> action \<Rightarrow> string \<Rightarrow> 'a logged \<Rightarrow> 'a logged" where
  "cancelStep e dry a message k =
     (case outcome e a of
        Some err \<Rightarrow>
          (case cancelled e dry (Some err) of
             Some err' \<Rightarrow> (Inl (Wrapping err' message), [a, CancelMigration dry])
           | None \<Rightarrow> (Inl (Wrapping err message), [a, CancelMigration dry]))
      | None \<Rightarrow> (case k of (r, t) \<Rightarrow> (r, a # t)))"

text \<open>
  \<open>confirmKeyspaceLocksHeld\<close>, the k-th time it is called: nothing in a dry run;
  otherwise \<open>CheckKeyspaceLocked\<close> on each of the keyspaces, a lost lock being
  wrapped twice (by the closure and by the caller).
\<close>

fun confirmKeyspaceLocksHeld :: "env \<Rightarrow> bool \<Rightarrow> nat \<Rightarrow> string list \<Rightarrow> 'a logged \<Rightarrow> 'a logged" where
  "confirmKeyspaceLocksHeld e dry k [] cont = cont"
| "confirmKeyspaceLocksHeld e dry k (ks # kss) cont =
     (if dry then cont
      else
        (case outcome e (CheckKeyspaceLocked k ks) of
           Some err \<Rightarrow>
             (Inl (Wrapping (Wrapping err (ks @ '' keyspace lock was lost'')) ''locks were lost''),
              [CheckKeyspaceLocked k ks])
         | None \<Rightarrow>
             (case confirmKeyspaceLocksHeld e dry k kss cont of
                (r, t) \<Rightarrow> (r, CheckKeyspaceLocked k ks # t))))"

text \<open>
  Modelled from the spec: the unlock closures of the lock coordinator are declared
  outside the sources at hand.  The closure is always invoked and receives the
  in-flight error, so that the release of the lock cannot mask it; a failure to release
  is the error when there is none in flight.  \<open>unlockNamed\<close> is a deferred unlock that
  is handed a named result, \<open>unlockLocal\<close> one that is handed a local variable and
  so cannot change what the function returns.
\<close>

definition unlockNamed :: "env \<Rightarrow> action \<Rightarrow> 'a logged \<Rightarrow> 'a logged" where
  "unlockNamed e a m =
     (case m of
        (Inl err, t) \<Rightarrow> (Inl err, t @ [a])
      | (Inr x, t) \<Rightarrow>
          (case outcome e a of None \<Rightarrow> (Inr x, t @ [a]) | Some err \<Rightarrow> (Inl err, t @ [a])))"

definition unlockLocal :: "action \<Rightarrow> 'a logged \<Rightarrow> 'a logged" where
  "unlockLocal a m = (case m of (r, t) \<Rightarrow> (r, t @ [a]))"

text \<open>
  \<open>sw.logs()\<close>: nil for the real switcher, the recorded lines for the dry-run one
  (a function of the calls it was asked to make).
\<close>

definition swLogs :: "env \<Rightarrow> bool \<Rightarrow> action list \<Rightarrow> string list option" where
  "swLogs e dry t = (if dry then Some (dryRunLog e t) else None)"

definition withLogs :: "env \<Rightarrow> bool \<Rightarrow> 'a logged \<Rightarrow> ('a \<times> string list option) logged" where
  "withLogs e dry m =
     (case m of
        (Inl err, t) \<Rightarrow> (Inl err, t)
      | (Inr x, t) \<Rightarrow> (Inr (x, swLogs e dry t), t))"

section \<open>The validation gate (\<open>canSwitch\<close>)\<close>

definition cannotSwitchError :: string where
  "cannotSwitchError = ''workflow has errors''"

definition cannotSwitchCopyIncomplete :: string where
  "cannotSwitchCopyIncomplete = ''copy is still in progress''"

definition cannotSwitchHighLag :: "int \<Rightarrow> int \<Rightarrow> string" where
  "cannotSwitchHighLag lag allowed =
     ''replication lag '' @ showInt lag @ ''s is higher than allowed lag '' @ showInt allowed @ ''s''"

definition cannotSwitchFailedTabletRefresh :: "string \<Rightarrow> string" where
  "cannotSwitchFailedTabletRefresh details =
     ''could not refresh all of the tablets involved in the operation:'' @ newline @ details"

definition cannotSwitchFrozen :: string where
  "cannotSwitchFrozen = ''workflow is frozen''"

text \<open>
  Modelled from the spec: the constant \<open>Frozen\<close> is declared outside the sources at
  hand; the message of a frozen stream is \<open>FROZEN\<close>.  The names of the stream
  states are those of the data model.
\<close>

definition Frozen :: string where
  "Frozen = ''FROZEN''"

definition streamReason :: "Stream \<Rightarrow> string option" where
  "streamReason st =
     (if Message st = Frozen then Some cannotSwitchFrozen
      else if StreamState st = ''Copying'' then Some cannotSwitchCopyIncomplete
      else if StreamState st = ''Error'' then Some cannotSwitchError
      else None)"

fun firstReason :: "Stream list \<Rightarrow> string option" where
  "firstReason [] = None"
| "firstReason (st # sts) =
     (case streamReason st of Some r \<Rightarrow> Some r | None \<Rightarrow> firstReason sts)"

text \<open>
  \<open>refreshTablets\<close>: the closure of \<open>canSwitch\<close>.  It returns what it appends to
  \<open>refreshErrors\<close> and its calls.  The source runs it for the source shards and for
  the target shards in two goroutines; the model runs the source shards first.
\<close>

fun refreshTablets :: "env \<Rightarrow> bool \<Rightarrow> string \<Rightarrow> string \<Rightarrow> ShardInfo list \<Rightarrow> string \<times> action list" where
  "refreshTablets e frc ks stype [] = ([], [])"
| "refreshTablets e frc ks stype (si # sis) =
     (case refreshResult e ks (ShardName si) of
        (partial, partialDetails, err) \<Rightarrow>
          let msg = ''failed to successfully refresh all tablets in the '' @ ks @ ''/''
                    @ ShardName si @ '' '' @ stype @ '' shard ('' @ formatErr err @ ''):''
                    @ newline @ ''  '' @ partialDetails @ newline;
              mine = (if err \<noteq> None \<or> partial
                      then (if partial \<and> frc then [] else msg) else [])
          in (case refreshTablets e frc ks stype sis of
                (others, t) \<Rightarrow> (mine @ others, RefreshTabletsByShard ks (ShardName si) stype # t)))"

definition canSwitch :: "env \<Rightarrow> trafficSwitcher \<Rightarrow> int \<Rightarrow> string list \<Rightarrow> string logged" where
  "canSwitch e ts maxAllowedReplLagSecs shards =
     (case GetWorkflow e (targetKeyspace ts) (workflow ts) shards of
        Inl err \<Rightarrow> (Inl err, [])
      | Inr wfl \<Rightarrow>
          if MaxVReplicationTransactionLag wfl > maxAllowedReplLagSecs
          then (Inr (cannotSwitchHighLag (MaxVReplicationTransactionLag wfl) maxAllowedReplLagSecs), [])
          else
            (case firstReason (concat (map snd (ShardStreams wfl))) of
               Some reason \<Rightarrow> (Inr reason, [])
             | None \<Rightarrow>
                 (case refreshTablets e (force ts) (sourceKeyspace ts) ''source'' (SourceShards ts) of
                    (srcErrors, t1) \<Rightarrow>
                      (case refreshTablets e (force ts) (targetKeyspace ts) ''target'' (TargetShards ts) of
                         (tgtErrors, t2) \<Rightarrow>
                           if srcErrors @ tgtErrors \<noteq> []
                           then (Inr (cannotSwitchFailedTabletRefresh (srcErrors @ tgtErrors)), t1 @ t2)
                           else (Inr [], t1 @ t2)))))"

section \<open>Switching traffic\<close>

record WorkflowSwitchTrafficRequest =
  reqKeyspace :: string
  reqWorkflow :: string
  Cells :: "string list"
  TabletTypes :: "TabletType list"
  MaxReplicationLagAllowed :: "protoDuration option"
  EnableReverseReplication :: bool
  Direction :: TrafficSwitchDirection
  Timeout :: "protoDuration option"
  DryRun :: bool
  InitializeTargetSequences :: bool
  reqShards :: "string list"
  Force :: bool

record WorkflowSwitchTrafficResponse =
  Summary :: string
  StartState :: string
  CurrentState :: string
  DryRunResults :: "string list"

text \<open>
  \<open>MakeStringTypeCSV\<close> is declared outside the sources at hand; it is taken to join
  the lower-case names of the tablet types with commas.
\<close>

fun tabletTypeName :: "TabletType \<Rightarrow> string" where
  "tabletTypeName PRIMARY = ''primary''"
| "tabletTypeName REPLICA = ''replica''"
| "tabletTypeName RDONLY = ''rdonly''"
| "tabletTypeName (OtherTabletType n) = n"

definition MakeStringTypeCSV :: "TabletType list \<Rightarrow> string" where
  "MakeStringTypeCSV tts = joinWith '','' (map tabletTypeName tts)"

subsection \<open>\<open>switchReads\<close>\<close>

text \<open>
  The \<open>switch\<close> on the kind of migration: whether traffic switching is all or
  nothing, and the cells of the request (sorted in place on the multi-tenant path).
\<close>

definition switchReadsCells ::
  "env \<Rightarrow> WorkflowSwitchTrafficRequest \<Rightarrow> trafficSwitcher \<Rightarrow> (bool \<times> string list) logged" where
  "switchReadsCells e req ts =
     (if isPartialMigration ts then (Inr (True, Cells req), [])
      else if migrationType ts = TABLES \<and> isMultiTenant ts then
        (case outcome e GetCellInfoNames of
           Some err \<Rightarrow> (Inl err, [GetCellInfoNames])
         | None \<Rightarrow>
             if Cells req \<noteq> [] then
               (if sort (Cells req) \<noteq> sort (cellInfoNames e) then
                  (Inl (Wrapping (Errorf INVALID_ARGUMENT
                     (''requesting switch of read traffic for multi-tenant migrations must include all cells; all cells: ''
                      @ joinWith '','' (sort (cellInfoNames e)) @ '', requested cells: ''
                      @ joinWith '','' (sort (Cells req)))) ''invalid request''), [GetCellInfoNames])
                else (Inr (False, sort (Cells req)), [GetCellInfoNames]))
             else (Inr (False, Cells req), [GetCellInfoNames]))
      else (Inr (False, Cells req), []))"

text \<open>The part of \<open>switchReads\<close> that runs under the source keyspace lock.\<close>

definition switchReadsLocked ::
  "env \<Rightarrow> WorkflowSwitchTrafficRequest \<Rightarrow> trafficSwitcher \<Rightarrow> string list \<Rightarrow> TabletType list \<Rightarrow>
   bool \<Rightarrow> TrafficSwitchDirection \<Rightarrow> unit logged" where
  "switchReadsLocked e req ts cells roTabletTypes rebuildSrvVSchema direction =
     (let dry = DryRun req;
          src = sourceKeyspace ts;
          tgt = targetKeyspace ts;
          cellsStr = joinWith '','' (Cells req)
      in
      step e (MirrorTableTraffic dry roTabletTypes 0)
        (''failed to remove mirror rules from source keyspace '' @ src @ '' to target keyspace ''
         @ tgt @ '', workflow '' @ workflow ts @ '', for read-only tablet types'')
        (if migrationType ts = TABLES then
           (if isMultiTenant ts then
              step e (SwitchKeyspaceReads dry roTabletTypes)
                (''failed to switch read traffic, from source keyspace '' @ src
                 @ '' to target keyspace '' @ tgt @ '', workflow '' @ workflow ts)
                (Inr (), [])
            else if isPartialMigration ts then (Inr (), [])
            else
              step e (SwitchTableReads dry cells roTabletTypes rebuildSrvVSchema direction)
                ''failed to switch read traffic for the tables'' (Inr (), []))
         else
           confirmKeyspaceLocksHeld e dry 0 [src]
             (step e (SwitchShardReads dry cells roTabletTypes direction)
                ''failed to switch read traffic for the shards''
                (confirmKeyspaceLocksHeld e dry 1 [src]
                   (case outcome e (ValidateSrvKeyspace tgt cellsStr) of
                      Some err \<Rightarrow>
                        (Inl (Wrapping (Wrapping err
                           (''after switching shard reads, found SrvKeyspace for '' @ tgt
                            @ '' is corrupt in cell '' @ cellsStr))
                           ''failed to validate SrvKeyspace record''),
                         [ValidateSrvKeyspace tgt cellsStr])
                    | None \<Rightarrow> (Inr (), [ValidateSrvKeyspace tgt cellsStr]))))))"

definition readsCheckJournals :: "env \<Rightarrow> WorkflowSwitchTrafficRequest \<Rightarrow> trafficSwitcher \<Rightarrow> unit logged" where
  "readsCheckJournals e req ts =
     (case outcome e CheckJournals of
        Some err \<Rightarrow>
          if \<not> Force req then
            (Inl (Wrapping err (''failed to read journal in the '' @ sourceKeyspace ts @ '' keyspace'')),
             [CheckJournals])
          else (Inr (), [CheckJournals])
      | None \<Rightarrow> (Inr (), [CheckJournals]))"

definition readsRdonlyTypes :: "env \<Rightarrow> bool \<Rightarrow> bool \<Rightarrow> TabletType list \<Rightarrow> (TabletType list) logged" where
  "readsRdonlyTypes e switchReplica switchRdonly roTabletTypes =
     (if switchReplica \<and> \<not> switchRdonly then
        (case outcome e DoCellsHaveRdonlyTablets of
           Some err \<Rightarrow> (Inl err, [DoCellsHaveRdonlyTablets])
         | None \<Rightarrow>
             (Inr (if rdonlyTabletsExist e then roTabletTypes else roTabletTypes @ [RDONLY]),
              [DoCellsHaveRdonlyTablets]))
      else (Inr roTabletTypes, []))"

definition switchReadsBody ::
  "env \<Rightarrow> WorkflowSwitchTrafficRequest \<Rightarrow> trafficSwitcher \<Rightarrow> State \<Rightarrow> bool \<Rightarrow>
   TrafficSwitchDirection \<Rightarrow> unit logged" where
  "switchReadsBody e req ts state rebuildSrvVSchema direction =
     (let roTabletTypes = filter (\<lambda>tt. tt \<noteq> PRIMARY) (TabletTypes req);
          switchReplica = (REPLICA \<in> set roTabletTypes);
          switchRdonly = (RDONLY \<in> set roTabletTypes);
          dry = DryRun req;
          src = sourceKeyspace ts
      in
      if \<not> switchReplica \<and> \<not> switchRdonly then
        (Inl (Wrapping (Errorf INVALID_ARGUMENT
           (''tablet types must be REPLICA or RDONLY: '' @ MakeStringTypeCSV roTabletTypes))
           ''invalid tablet types''), [])
      else
        andThen (switchReadsCells e req ts) (\<lambda>(allOrNothing, cells).
          if \<not> allOrNothing \<and> direction = DirectionBackward \<and> switchReplica
             \<and> ReplicaCellsSwitched state = [] then
            (Inl (Wrapping (Errorf FAILED_PRECONDITION
               ''requesting reversal of read traffic for REPLICAs but REPLICA reads have not been switched'')
               ''invalid request''), [])
          else if \<not> allOrNothing \<and> direction = DirectionBackward \<and> switchRdonly
             \<and> RdonlyCellsSwitched state = [] then
            (Inl (Wrapping (Errorf FAILED_PRECONDITION
               ''requesting reversal of read traffic for RDONLYs but RDONLY reads have not been switched'')
               ''invalid request''), [])
          else
            andThen (readsRdonlyTypes e switchReplica switchRdonly roTabletTypes) (\<lambda>roTabletTypes'.
              andThen (readsCheckJournals e req ts) (\<lambda>u.
                step e Validate ''workflow validation failed''
                  (case DurationFromProto e (Timeout req) of
                     (ksLockTTL, isSet, terr) \<Rightarrow>
                       (case terr of
                          Some err \<Rightarrow>
                            (Inl (Wrapping err ''unable to parse Timeout into a valid duration''), [])
                        | None \<Rightarrow>
                            step e (LockKeyspace dry src ''SwitchReads'')
                              (''failed to lock the '' @ src @ '' keyspace'')
                              (unlockLocal (UnlockKeyspace dry src)
                                 (switchReadsLocked e req ts cells roTabletTypes'
                                    rebuildSrvVSchema direction))))))))"

definition switchReads ::
  "env \<Rightarrow> WorkflowSwitchTrafficRequest \<Rightarrow> trafficSwitcher \<Rightarrow> State \<Rightarrow> bool \<Rightarrow>
   TrafficSwitchDirection \<Rightarrow> (string list option) logged" where
  "switchReads e req ts state rebuildSrvVSchema direction =
     (case switchReadsBody e req ts state rebuildSrvVSchema direction of
        (Inl err, t) \<Rightarrow> (Inl err, t)
      | (Inr u, t) \<Rightarrow> (Inr (swLogs e (DryRun req) t), t))"

subsection \<open>\<open>switchWrites\<close>\<close>

definition lockTablesCycles :: nat where
  "lockTablesCycles = 2"

text \<open>
  The tail of the flow, from the point of no return on: the last confirmation of the
  locks, the journals, the target writes, the routing, the stream migrator, the reverse
  streams and the freeze.  It returns \<open>ts.id\<close>.
\<close>

definition switchWritesTail ::
  "env \<Rightarrow> WorkflowSwitchTrafficRequest \<Rightarrow> trafficSwitcher \<Rightarrow> string list \<Rightarrow> int logged" where
  "switchWritesTail e req ts sourceWorkflows =
     (let dry = DryRun req; src = sourceKeyspace ts; tgt = targetKeyspace ts in
      confirmKeyspaceLocksHeld e dry 5 [src, tgt]
        (step e (CreateJournals dry sourceWorkflows) ''failed to create the journal''
          (step e (AllowTargetWrites dry) (''failed to allow writes in the '' @ tgt @ '' keyspace'')
            (step e (ChangeRouting dry) ''failed to update the routing rules''
              (step e (StreamMigraterfinalize dry sourceWorkflows) ''failed to finalize the traffic switch''
                ((if EnableReverseReplication req
                  then step e (StartReverseVReplication dry) ''failed to start the reverse workflow''
                  else (\<lambda>k. k))
                   (step e (FreezeTargetVReplication dry)
                      (''failed to freeze the workflow in the '' @ tgt @ '' keyspace'')
                      (Inr (migrationId ts), []))))))))"

text \<open>The \<open>LOCK TABLES\<close> cycles, for the counts \<open>cnt\<close> still to run.\<close>

fun lockTablesLoop :: "env \<Rightarrow> bool \<Rightarrow> nat list \<Rightarrow> 'a logged \<Rightarrow> 'a logged" where
  "lockTablesLoop e dry [] k = k"
| "lockTablesLoop e dry (cnt # cnts) k =
     cancelStep e dry (ExecuteLockTablesOnSource cnt)
       (''failed to execute LOCK TABLES (attempt '' @ showNat cnt @ '' of ''
        @ showNat lockTablesCycles @ '') on sources'')
       (lockTablesLoop e dry cnts k)"

text \<open>
  The branch taken when no journal exists, after the stream migrator is built and the
  request is not a cancellation: every step before the point of no return.  It is cut
  in two at the gathering of the source positions.
\<close>

definition switchWritesCatchup ::
  "env \<Rightarrow> WorkflowSwitchTrafficRequest \<Rightarrow> trafficSwitcher \<Rightarrow> string list \<Rightarrow> int logged" where
  "switchWritesCatchup e req ts sequenceMetadata =
     (let dry = DryRun req; src = sourceKeyspace ts; tgt = targetKeyspace ts;
          initSeq = (if InitializeTargetSequences req \<and> sequenceMetadata \<noteq> []
                     then cancelStep e dry (InitTargetSequences dry)
                            (''failed to initialize the sequences used in the '' @ tgt @ '' keyspace'')
                     else (\<lambda>k. k))
      in
      step e GatherSourcePositions ''failed to gather replication positions on migration sources''
       (confirmKeyspaceLocksHeld e dry 0 [src, tgt]
        (cancelStep e dry (WaitForCatchup dry)
           ''failed to sync up replication between the source and target''
         (confirmKeyspaceLocksHeld e dry 1 [src, tgt]
          (cancelStep e dry (MigrateStreams dry) ''failed to migrate the workflow streams''
           (confirmKeyspaceLocksHeld e dry 2 [src, tgt]
            (cancelStep e dry (ResetSequences dry) ''failed to reset the sequences''
             (confirmKeyspaceLocksHeld e dry 3 [src, tgt]
              (cancelStep e dry (CreateReverseVReplication dry)
                 ''failed to create the reverse vreplication streams''
               (confirmKeyspaceLocksHeld e dry 4 [src, tgt]
                (initSeq (switchWritesTail e req ts (stoppedWorkflows e)))))))))))))"

definition switchWritesFresh ::
  "env \<Rightarrow> WorkflowSwitchTrafficRequest \<Rightarrow> trafficSwitcher \<Rightarrow> string list \<Rightarrow> int logged" where
  "switchWritesFresh e req ts sequenceMetadata =
     (let dry = DryRun req; src = sourceKeyspace ts;
          lockTables = (if migrationType ts = TABLES
                        then lockTablesLoop e dry [1 ..< Suc lockTablesCycles]
                        else (\<lambda>k. k))
      in
      cancelStep e dry (StopSourceWrites dry) (''failed to stop writes in the '' @ src @ '' keyspace'')
       (cancelStep e dry (StopStreams dry)
          (''failed to stop the workflow streams in the '' @ src @ '' keyspace'')
        (lockTables (switchWritesCatchup e req ts sequenceMetadata))))"

text \<open>From the check of the journals on.\<close>

definition switchWritesJournals ::
  "env \<Rightarrow> WorkflowSwitchTrafficRequest \<Rightarrow> trafficSwitcher \<Rightarrow> bool \<Rightarrow> string list \<Rightarrow> int logged" where
  "switchWritesJournals e req ts cancel sequenceMetadata =
     step e CheckJournals (''failed to read journal in the '' @ sourceKeyspace ts @ '' keyspace'')
       (if \<not> journalsExist e then
          step e BuildStreamMigrator ''failed to migrate the workflow streams''
            (if cancel then
               (case cancelled e (DryRun req) None of
                  None \<Rightarrow> (Inr 0, [CancelMigration (DryRun req)])
                | Some err \<Rightarrow> (Inl err, [CancelMigration (DryRun req)]))
             else switchWritesFresh e req ts sequenceMetadata)
        else if cancel then
          (Inl (Wrapping (Errorf FAILED_PRECONDITION
             ''traffic switching has reached the point of no return, cannot cancel'')
             ''invalid cancel''), [])
        else
          step e GatherPositions ''failed to gather replication positions''
            (switchWritesTail e req ts (journalWorkflows e)))"

text \<open>
  \<open>switchWrites\<close>.  \<open>waitTimeout\<close> only sets the time to live of the locks and the
  deadlines of the calls, which the model does not follow.  The result is the journal
  id and \<open>sw.logs()\<close>.
\<close>

definition switchWritesBody ::
  "env \<Rightarrow> WorkflowSwitchTrafficRequest \<Rightarrow> trafficSwitcher \<Rightarrow> int \<Rightarrow> bool \<Rightarrow> int logged" where
  "switchWritesBody e req ts waitTimeout cancel =
     (let dry = DryRun req; src = sourceKeyspace ts; tgt = targetKeyspace ts in
      if frozen ts then (Inr 0, [])
      else
        step e Validate ''workflow validation failed''
          ((if EnableReverseReplication req
            then (\<lambda>k. step e ValidateShardsHaveVReplicationPermissions
                   (''primary tablets are not able to fully manage the reverse vreplication workflow in the ''
                    @ src @ '' keyspace'')
                   (step e AreTabletsAvailableToStreamFrom
                      (''no tablets were available to stream from in the '' @ tgt @ '' keyspace'') k))
            else (\<lambda>k. k))
             (step e (LockKeyspace dry src ''SwitchWrites'') (''failed to lock the '' @ src @ '' keyspace'')
               (unlockNamed e (UnlockKeyspace dry src)
                 ((if tgt \<noteq> src
                   then (\<lambda>k. step e (LockKeyspace dry tgt ''SwitchWrites'')
                          (''failed to lock the '' @ tgt @ '' keyspace'')
                          (unlockNamed e (UnlockKeyspace dry tgt) k))
                   else (\<lambda>k. k))
                    (step e (MirrorTableTraffic dry [PRIMARY] 0)
                       (''failed to remove mirror rules from source keyspace '' @ src
                        @ '' to target keyspace '' @ tgt @ '', workflow '' @ workflow ts
                        @ '', for primary tablet type'')
                       (if InitializeTargetSequences req \<and> workflowType ts = MoveTables
                           \<and> sourceKSSharded ts = Some False
                        then step e GetTargetSequenceMetadata
                               (''failed to get the sequence information in the '' @ tgt @ '' keyspace'')
                               (switchWritesJournals e req ts cancel (targetSequenceMetadata e))
                        else switchWritesJournals e req ts cancel [])))))))"

definition switchWrites ::
  "env \<Rightarrow> WorkflowSwitchTrafficRequest \<Rightarrow> trafficSwitcher \<Rightarrow> int \<Rightarrow> bool \<Rightarrow>
   (int \<times> string list option) logged" where
  "switchWrites e req ts waitTimeout cancel =
     withLogs e (DryRun req) (switchWritesBody e req ts waitTimeout cancel)"

subsection \<open>\<open>WorkflowSwitchTraffic\<close>\<close>

text \<open>
  \<open>return nil, err\<close>: the pair the verb returns holds no response; it is an error
  only when \<open>err\<close> is not nil.
\<close>

definition returnNil :: "verror option \<Rightarrow> verror + 'a option" where
  "returnNil err = (case err of None \<Rightarrow> Inr None | Some e \<Rightarrow> Inl e)"

text \<open>The response, built after the switches (the end of the verb).\<close>

definition switchTrafficResponse ::
  "env \<Rightarrow> WorkflowSwitchTrafficRequest \<Rightarrow> trafficSwitcher \<Rightarrow> State \<Rightarrow> string list option \<Rightarrow>
   string list option \<Rightarrow> WorkflowSwitchTrafficResponse" where
  "switchTrafficResponse e req ts startState rdDryRunResults wrDryRunResults =
     (let results0 = (case rdDryRunResults of None \<Rightarrow> [] | Some l \<Rightarrow> l)
                     @ (case wrDryRunResults of None \<Rightarrow> [] | Some l \<Rightarrow> l);
          dryRunResults = (if DryRun req \<and> results0 = [] then [''No changes required''] else results0);
          cmd = (if Direction req = DirectionBackward then ''ReverseTraffic'' else ''SwitchTraffic'')
      in
      if DryRun req then
        \<lparr>Summary = cmd @ '' dry run results for workflow '' @ reqKeyspace req @ ''.''
                    @ reqWorkflow req @ '' at '' @ nowRFC822 e,
         StartState = [], CurrentState = [], DryRunResults = dryRunResults\<rparr>
      else
        (let current = getWorkflowState (topoAfter e) (targetKeyspace ts) (workflow ts) False;
             sourceKs = (if Direction req = DirectionBackward then targetKeyspace ts else sourceKeyspace ts);
             targetKs = (if Direction req = DirectionBackward then sourceKeyspace ts else targetKeyspace ts);
             reloaded =
               (case current of
                  Inl err \<Rightarrow>
                    if isMultiTenant ts then
                      (case updateKeyspaceRoutingStateNil (topoAfter e) sourceKs targetKs of
                         Some err' \<Rightarrow> Inl err'
                       | None \<Rightarrow> Inr None)
                    else Inl err
                | Inr (ts', currentState) \<Rightarrow>
                    if isMultiTenant ts then
                      (case updateKeyspaceRoutingState (topoAfter e) sourceKs targetKs currentState of
                         Inl err' \<Rightarrow> Inl err'
                       | Inr currentState' \<Rightarrow> Inr (Some currentState'))
                    else Inr (Some currentState))
         in
         \<lparr>Summary = cmd @ '' was successful for workflow '' @ reqKeyspace req @ ''.'' @ reqWorkflow req,
          StartState = stateString e startState,
          CurrentState =
            (case reloaded of
               Inl err \<Rightarrow> ''Error reloading workflow state after switching traffic: '' @ formatV err
             | Inr None \<Rightarrow> ''<nil>''
             | Inr (Some currentState) \<Rightarrow> stateString e currentState),
          DryRunResults = []\<rparr>))"

text \<open>The switches themselves: the reads, then the writes, then the response.\<close>

definition switchTrafficRun ::
  "env \<Rightarrow> WorkflowSwitchTrafficRequest \<Rightarrow> trafficSwitcher \<Rightarrow> State \<Rightarrow> TrafficSwitchDirection \<Rightarrow>
   int \<Rightarrow> bool \<Rightarrow> bool \<Rightarrow> bool \<Rightarrow> (WorkflowSwitchTrafficResponse option) logged" where
  "switchTrafficRun e req ts startState direction timeout switchReplica switchRdonly switchPrimary =
     andThen
       (if switchReplica \<or> switchRdonly
        then switchReads e req ts startState (\<not> switchPrimary) direction
        else (Inr None, []))
       (\<lambda>rdDryRunResults.
          andThen
            (if switchPrimary
             then andThen (switchWrites e req ts timeout False) (\<lambda>(journalID, logs). (Inr logs, []))
             else (Inr None, []))
            (\<lambda>wrDryRunResults.
               (Inr (Some (switchTrafficResponse e req ts startState rdDryRunResults wrDryRunResults)),
                [])))"

text \<open>
  What the verb has settled when it reaches the workflow lock: the traffic switcher and
  the start state it goes on with (those of the reverse workflow when write traffic is
  reversed), the direction, whether writes are already switched in the direction asked
  for, the two durations and the parsed tablet types.
\<close>

record switchPlan =
  planSwitcher :: trafficSwitcher
  planStartState :: State
  planDirection :: TrafficSwitchDirection
  planWritesAlreadySwitched :: bool
  planTimeout :: int
  planMaxReplicationLagAllowed :: int
  planSwitchReplica :: bool
  planSwitchRdonly :: bool
  planSwitchPrimary :: bool

text \<open>
  The first part of \<open>WorkflowSwitchTraffic\<close>, up to the workflow lock: the checks
  of the arguments and of the workflow.  It makes no call that is logged.  \<open>Inl\<close> is
  an early return, \<open>Inr\<close> the plan.  \<open>timeout.Seconds() < 1\<close> holds exactly when
  the duration is below \<open>second\<close> nanoseconds.
\<close>

definition switchTrafficPrepare ::
  "env \<Rightarrow> WorkflowSwitchTrafficRequest \<Rightarrow>
   (verror + WorkflowSwitchTrafficResponse option) + switchPlan" where
  "switchTrafficPrepare e req =
     (case DurationFromProto e (Timeout req) of
        (timeout0, isSet, err) \<Rightarrow>
          if err \<noteq> None then
            Inl (returnNil (Wrapf err ''unable to parse Timeout into a valid duration''))
          else
            (let timeout = (if \<not> isSet then DefaultTimeout else timeout0) in
             if timeout < second then
               Inl (returnNil (Wrap err ''timeout must be at least 1 second''))
             else
               (case DurationFromProto e (MaxReplicationLagAllowed req) of
                  (lag0, lagSet, lagErr) \<Rightarrow>
                    if lagErr \<noteq> None then
                      Inl (returnNil (Wrapf lagErr
                         ''unable to parse MaxReplicationLagAllowed into a valid duration''))
                    else
                      (let maxReplicationLagAllowed = (if \<not> lagSet then DefaultTimeout else lag0) in
                       case parseTabletTypes e (TabletTypes req) of
                         Inl perr \<Rightarrow> Inl (Inl perr)
                       | Inr (switchReplica, switchRdonly, switchPrimary) \<Rightarrow>
                          (case getWorkflowState (topo e) (reqKeyspace req) (reqWorkflow req) False of
                             Inl gerr \<Rightarrow> Inl (Inl gerr)
                           | Inr (ts, startState0) \<Rightarrow>
                               if WorkflowType startState0 = TypeMigrate then
                                 Inl (Inl (Errorf INVALID_ARGUMENT
                                    ''invalid action for Migrate workflow: SwitchTraffic''))
                               else
                                 (case (if isMultiTenant ts
                                        then updateKeyspaceRoutingState (topo e) (sourceKeyspace ts)
                                               (targetKeyspace ts) startState0
                                        else Inr startState0) of
                                    Inl uerr \<Rightarrow>
                                      Inl (Inl (Wrapping uerr
                                         ''failed to update multi-tenant workflow state using keyspace routing rules''))
                                  | Inr startState \<Rightarrow>
                                      (let direction = Direction req;
                                           onlySwitchingReads =
                                             (\<not> WritesSwitched startState \<and> \<not> switchPrimary);
                                           writesAlreadySwitched =
                                             ((direction = DirectionForward \<and> WritesSwitched startState)
                                              \<or> (direction = DirectionBackward
                                                  \<and> \<not> WritesSwitched startState));
                                           plan = \<lparr>planSwitcher = ts, planStartState = startState,
                                                   planDirection = direction,
                                                   planWritesAlreadySwitched = writesAlreadySwitched,
                                                   planTimeout = timeout,
                                                   planMaxReplicationLagAllowed = maxReplicationLagAllowed,
                                                   planSwitchReplica = switchReplica,
                                                   planSwitchRdonly = switchRdonly,
                                                   planSwitchPrimary = switchPrimary\<rparr>
                                       in
                                       if direction = DirectionBackward \<and> \<not> onlySwitchingReads then
                                         (if isMultiTenant ts then
                                            Inl (Inl (Errorf INVALID_ARGUMENT
                                               ''cannot reverse write traffic for multi-tenant migrations''))
                                          else
                                            (case getWorkflowState (topo e) (sourceKeyspace ts)
                                                    (reverseWorkflow ts) False of
                                               Inl gerr \<Rightarrow> Inl (Inl gerr)
                                             | Inr (rts, rstate) \<Rightarrow>
                                                 Inr (plan\<lparr>planSwitcher := rts, planStartState := rstate,
                                                           planDirection := DirectionForward\<rparr>)))
                                       else Inr plan)))))))"

text \<open>
  From the workflow lock on: the lock, the validation gate (skipped when writes are
  already switched in the direction asked for), and the switches.
\<close>

definition switchTrafficLocked ::
  "env \<Rightarrow> WorkflowSwitchTrafficRequest \<Rightarrow> switchPlan \<Rightarrow> (WorkflowSwitchTrafficResponse option) logged" where
  "switchTrafficLocked e req plan =
     (let lockName = targetKeyspace (planSwitcher plan) @ ''/'' @ workflow (planSwitcher plan) in
      case outcome e (LockName lockName ''WorkflowSwitchTraffic'') of
        Some lockErr \<Rightarrow>
          (Inl (Wrapping lockErr (''failed to lock the '' @ lockName @ '' workflow'')),
           [LockName lockName ''WorkflowSwitchTraffic''])
      | None \<Rightarrow>
          (let ts = (planSwitcher plan)\<lparr>force := Force req\<rparr>;
               run = switchTrafficRun e req ts (planStartState plan) (planDirection plan)
                       (planTimeout plan) (planSwitchReplica plan) (planSwitchRdonly plan)
                       (planSwitchPrimary plan);
               gated =
                 (if planWritesAlreadySwitched plan then run
                  else
                    andThen (canSwitch e ts (wholeSeconds (planMaxReplicationLagAllowed plan))
                               (reqShards req))
                      (\<lambda>reason.
                         if reason \<noteq> [] then
                           (Inl (Errorf FAILED_PRECONDITION
                              (''cannot switch traffic for workflow '' @ Workflow (planStartState plan)
                               @ '' at this time: '' @ reason)), [])
                         else run))
           in case unlockLocal (UnlockName lockName) gated of
                (r, t) \<Rightarrow> (r, LockName lockName ''WorkflowSwitchTraffic'' # t)))"

definition WorkflowSwitchTraffic ::
  "env \<Rightarrow> WorkflowSwitchTrafficRequest \<Rightarrow> (WorkflowSwitchTrafficResponse option) logged" where
  "WorkflowSwitchTraffic e req =
     (case switchTrafficPrepare e req of
        Inl early \<Rightarrow> (early, [])
      | Inr plan \<Rightarrow> switchTrafficLocked e req plan)"

text \<open>The error a verb returns (\<open>None\<close> is nil).\<close>

definition returnedError :: "'a logged \<Rightarrow> verror option" where
  "returnedError m = (case fst m of Inl err \<Rightarrow> Some err | Inr x \<Rightarrow> None)"

section \<open>Deleting, completing and mirroring\<close>

definition ErrWorkflowCompleteNotFullySwitched :: verror where
  "ErrWorkflowCompleteNotFullySwitched =
     Plain ''cannot complete workflow because you have not yet switched all read and write traffic''"

definition ErrWorkflowDeleteWritesSwitched :: verror where
  "ErrWorkflowDeleteWritesSwitched =
     Plain ''cannot delete workflow because you have already switched write traffic''"

text \<open>
  What the helpers of the two verbs return besides their errors: the dry-run lines of
  \<open>finalizeMigrateWorkflow\<close> and \<open>dropSources\<close>, the rows each tablet reports
  for \<open>DeleteVReplicationWorkflow\<close> (tablet alias and rows affected), and whether an
  error is the topology's \<open>NoNode\<close>.
\<close>

record cleanupResults =
  finalizeResults :: "string list option"
  dropSourcesResults :: "string list option"
  deleteResults :: "(string \<times> int) list"
  isNoNode :: "verror \<Rightarrow> bool"

subsection \<open>\<open>WorkflowDelete\<close>\<close>

record WorkflowDeleteRequest =
  delKeyspace :: string
  delWorkflow :: string
  delKeepData :: bool
  delKeepRoutingRules :: bool
  delShards :: "string list"
  DeleteBatchSize :: int
  delIgnoreSourceKeyspace :: bool

record WorkflowDeleteResponse =
  delSummary :: string
  Details :: "(string \<times> bool) list"

fun workflowTypeName :: "VReplicationWorkflowType \<Rightarrow> string" where
  "workflowTypeName Materialize = ''Materialize''"
| "workflowTypeName MoveTables = ''MoveTables''"
| "workflowTypeName CreateLookupIndex = ''CreateLookupIndex''"
| "workflowTypeName Migrate = ''Migrate''"
| "workflowTypeName Reshard = ''Reshard''"
| "workflowTypeName OnlineDDL = ''OnlineDDL''"

text \<open>The part of \<open>WorkflowDelete\<close> that runs under the workflow lock.\<close>

definition workflowDeleteLocked ::
  "env \<Rightarrow> cleanupResults \<Rightarrow> WorkflowDeleteRequest \<Rightarrow> trafficSwitcher \<Rightarrow> State \<Rightarrow>
   (WorkflowDeleteResponse option) logged" where
  "workflowDeleteLocked e cr req ts state =
     (if WorkflowType state = TypeMigrate then
        (returnNil (outcome e (FinalizeMigrateWorkflow [] True (delKeepData req) (delKeepRoutingRules req) False)),
         [FinalizeMigrateWorkflow [] True (delKeepData req) (delKeepRoutingRules req) False])
      else
        andThen
          (if isMultiTenant ts then
             (if workflowType ts \<noteq> MoveTables then
                (Inl (Errorf FAILED_PRECONDITION
                   (''unsupported workflow type \"'' @ workflowTypeName (workflowType ts)
                    @ ''\" for multi-tenant migration'')), [])
              else if \<not> delKeepData req then
                step e (DeleteTenantData (DeleteBatchSize req))
                  (''failed to fully delete all migrated data for tenant '' @ tenantId ts
                   @ '', please retry the operation'') (Inr (), [])
              else (Inr (), []))
           else (Inr (), []))
          (\<lambda>u.
             andThen
               (if workflowType ts \<noteq> CreateLookupIndex then
                  (case outcome e (DropTargets (delKeepData req) (delKeepRoutingRules req) False) of
                     Some err \<Rightarrow>
                       (Inl (if isNoNode cr err
                             then Wrapping err (delKeyspace req @ '' keyspace does not exist'')
                             else err),
                        [DropTargets (delKeepData req) (delKeepRoutingRules req) False])
                   | None \<Rightarrow> (Inr (), [DropTargets (delKeepData req) (delKeepRoutingRules req) False]))
                else (Inr (), []))
               (\<lambda>u.
                  plainStep e (DeleteVReplicationWorkflow (delShards req))
                    (Inr (Some \<lparr>delSummary = ''Successfully cancelled the '' @ delWorkflow req
                                    @ '' workflow in the '' @ delKeyspace req @ '' keyspace'',
                                  Details = sort_key fst
                                    (map (\<lambda>(alias, rows). (alias, 0 < rows)) (deleteResults cr))\<rparr>),
                     []))))"

definition WorkflowDelete ::
  "env \<Rightarrow> cleanupResults \<Rightarrow> WorkflowDeleteRequest \<Rightarrow> (WorkflowDeleteResponse option) logged" where
  "WorkflowDelete e cr req =
     (case getWorkflowState (topo e) (delKeyspace req) (delWorkflow req) (delIgnoreSourceKeyspace req) of
        Inl err \<Rightarrow> (Inl err, [])
      | Inr (ts, state) \<Rightarrow>
          if workflowType ts \<noteq> CreateLookupIndex \<and> WritesSwitched state then
            (Inl ErrWorkflowDeleteWritesSwitched, [])
          else
            (let lockName = targetKeyspace ts @ ''/'' @ workflow ts in
             case outcome e (LockName lockName ''WorkflowDelete'') of
               Some lockErr \<Rightarrow>
                 (Inl (Wrapping lockErr (''failed to lock the '' @ lockName @ '' workflow'')),
                  [LockName lockName ''WorkflowDelete''])
             | None \<Rightarrow>
                 (case unlockLocal (UnlockName lockName) (workflowDeleteLocked e cr req ts state) of
                    (r, t) \<Rightarrow> (r, LockName lockName ''WorkflowDelete'' # t))))"

subsection \<open>\<open>MoveTablesComplete\<close>\<close>

record MoveTablesCompleteRequest =
  cmpWorkflow :: string
  cmpTargetKeyspace :: string
  cmpKeepData :: bool
  cmpKeepRoutingRules :: bool
  RenameTables :: bool
  cmpDryRun :: bool
  cmpIgnoreSourceKeyspace :: bool

record MoveTablesCompleteResponse =
  cmpSummary :: string
  cmpDryRunResults :: "string list"

text \<open>The part of \<open>MoveTablesComplete\<close> that runs under the workflow lock.\<close>

definition moveTablesCompleteLocked ::
  "env \<Rightarrow> cleanupResults \<Rightarrow> MoveTablesCompleteRequest \<Rightarrow> trafficSwitcher \<Rightarrow> State \<Rightarrow>
   MoveTablesCompleteResponse logged" where
  "moveTablesCompleteLocked e cr req ts state =
     (let summary =
            (if cmpDryRun req then
               ''Complete dry run results for workflow '' @ cmpTargetKeyspace req @ ''.''
               @ cmpWorkflow req @ '' at '' @ nowRFC822 e
             else ''Successfully completed the '' @ cmpWorkflow req @ '' workflow in the ''
                  @ cmpTargetKeyspace req @ '' keyspace'')
      in
      if WorkflowType state = TypeMigrate then
        step e (FinalizeMigrateWorkflow (joinWith '','' (tables ts)) False (cmpKeepData req)
                  (cmpKeepRoutingRules req) (cmpDryRun req))
          (''failed to finalize the '' @ cmpWorkflow req @ '' workflow in the ''
           @ cmpTargetKeyspace req @ '' keyspace'')
          (Inr \<lparr>cmpSummary = summary,
                cmpDryRunResults = (case finalizeResults cr of None \<Rightarrow> [] | Some l \<Rightarrow> l)\<rparr>, [])
      else if \<not> WritesSwitched state \<or> ReplicaCellsNotSwitched state \<noteq> []
              \<or> RdonlyCellsNotSwitched state \<noteq> [] then
        (Inl ErrWorkflowCompleteNotFullySwitched, [])
      else
        plainStep e (DropSources (RenameTables req) (cmpKeepData req) (cmpKeepRoutingRules req) False
                       (cmpDryRun req))
          (Inr \<lparr>cmpSummary = summary,
                cmpDryRunResults = (case dropSourcesResults cr of None \<Rightarrow> [] | Some l \<Rightarrow> l)\<rparr>, []))"

definition MoveTablesComplete ::
  "env \<Rightarrow> cleanupResults \<Rightarrow> MoveTablesCompleteRequest \<Rightarrow> MoveTablesCompleteResponse logged" where
  "MoveTablesComplete e cr req =
     (case getWorkflowState (topo e) (cmpTargetKeyspace req) (cmpWorkflow req)
             (cmpIgnoreSourceKeyspace req) of
        Inl err \<Rightarrow> (Inl err, [])
      | Inr (ts, state) \<Rightarrow>
          (let lockName = targetKeyspace ts @ ''/'' @ workflow ts in
           case outcome e (LockName lockName ''MoveTablesComplete'') of
             Some lockErr \<Rightarrow>
               (Inl (Wrapping lockErr (''failed to lock the '' @ lockName @ '' workflow'')),
                [LockName lockName ''MoveTablesComplete''])
           | None \<Rightarrow>
               (case unlockLocal (UnlockName lockName) (moveTablesCompleteLocked e cr req ts state) of
                  (r, t) \<Rightarrow> (r, LockName lockName ''MoveTablesComplete'' # t))))"

subsection \<open>\<open>WorkflowMirrorTraffic\<close>\<close>

record WorkflowMirrorTrafficRequest =
  mirKeyspace :: string
  mirWorkflow :: string
  mirTabletTypes :: "TabletType list"
  Percent :: rat

record WorkflowMirrorTrafficResponse =
  mirSummary :: string
  mirStartState :: string
  mirCurrentState :: string

fun typeName :: "Type \<Rightarrow> string" where
  "typeName TypeUnset = []"
| "typeName TypeMoveTables = ''MoveTables''"
| "typeName TypeReshard = ''Reshard''"
| "typeName TypeMigrate = ''Migrate''"

fun migrationTypeName :: "MigrationType \<Rightarrow> string" where
  "migrationTypeName TABLES = ''TABLES''"
| "migrationTypeName SHARDS = ''SHARDS''"

text \<open>The loop that collects the requested tablet types whose traffic is switched.\<close>

fun cannotSwitchTabletTypes :: "State \<Rightarrow> TabletType list \<Rightarrow> string list" where
  "cannotSwitchTabletTypes st [] = []"
| "cannotSwitchTabletTypes st (tt # tts) =
     (if tt = RDONLY \<and> RdonlyCellsSwitched st \<noteq> [] then [''rdonly''] else [])
     @ (if tt = REPLICA \<and> ReplicaCellsSwitched st \<noteq> [] then [''replica''] else [])
     @ (if tt = PRIMARY \<and> WritesSwitched st then [''primary''] else [])
     @ cannotSwitchTabletTypes st tts"

definition mirrorTraffic ::
  "env \<Rightarrow> WorkflowMirrorTrafficRequest \<Rightarrow> trafficSwitcher \<Rightarrow> State \<Rightarrow> unit logged" where
  "mirrorTraffic e req ts state =
     plainStep e Validate
       (plainStep e (MirrorTableTraffic False (mirTabletTypes req) (Percent req)) (Inr (), []))"

definition WorkflowMirrorTraffic ::
  "env \<Rightarrow> WorkflowMirrorTrafficRequest \<Rightarrow> WorkflowMirrorTrafficResponse logged" where
  "WorkflowMirrorTraffic e req =
     (case getWorkflowState (topo e) (mirKeyspace req) (mirWorkflow req) False of
        Inl err \<Rightarrow> (Inl err, [])
      | Inr (ts, startState) \<Rightarrow>
          if WorkflowType startState \<noteq> TypeMoveTables then
            (Inl (Errorf INVALID_ARGUMENT
               (''invalid action for '' @ typeName (WorkflowType startState) @ '' workflow: MirrorTraffic'')),
             [])
          else if IsReverse startState then
            (Inl (Errorf INVALID_ARGUMENT ''invalid action for reverse workflow: MirrorTraffic''), [])
          else if migrationType ts \<noteq> TABLES then
            (Inl (Errorf INVALID_ARGUMENT
               (''invalid action for '' @ migrationTypeName (migrationType ts)
                @ '' migration type: MirrorTraffic'')), [])
          else if isPartialMigration ts then
            (Inl (Errorf INVALID_ARGUMENT ''invalid action for partial migration: MirrorTraffic''), [])
          else if isMultiTenant ts then
            (Inl (Errorf INVALID_ARGUMENT ''invalid action for multi-tenant migration: MirrorTraffic''), [])
          else if cannotSwitchTabletTypes startState (mirTabletTypes req) \<noteq> [] then
            (Inl (Errorf FAILED_PRECONDITION
               (''cannot mirror ['' @ joinWith '','' (cannotSwitchTabletTypes startState (mirTabletTypes req))
                @ ''] traffic for workflow '' @ Workflow startState
                @ '' at this time: traffic for those tablet types is switched'')), [])
          else
            andThen (mirrorTraffic e req ts startState) (\<lambda>u.
              (Inr \<lparr>mirSummary = ''MirrorTraffic was successful for workflow '' @ mirKeyspace req
                                  @ ''.'' @ mirWorkflow req,
                    mirStartState = stateString e startState,
                    mirCurrentState =
                      (case getWorkflowState (topoAfter e) (mirKeyspace req) (mirWorkflow req) False of
                         Inl err \<Rightarrow> ''Error reloading workflow state after mirror traffic: ''
                                      @ formatV err
                       | Inr (ts', currentState) \<Rightarrow> stateString e currentState)\<rparr>, [])))"

section \<open>Stream states in the workflow list (web UI, \<open>Workflows\<close>)\<close>

text \<open>
  The stream objects as the component reads them.  An optional property that is
  \<open>null\<close> or \<open>undefined\<close> is \<open>None\<close>; the \<open>seconds\<close> of a timestamp are
  a number, \<open>null\<close> or \<open>undefined\<close>, and \<open>Number\<close> turns them into a number
  or into NaN (\<open>None\<close>).  \<open>Date.now()\<close> is a whole number of milliseconds; the
  division and the comparison are taken over the reals, the rounding of the 64-bit
  floats being left out.
\<close>

datatype jsSeconds = SecondsUndefined | SecondsNull | SecondsNumber int

record ITime =
  seconds :: jsSeconds

record IThrottlerStatus =
  component_throttled :: "string option"
  time_throttled :: "ITime option"

record IStream =
  state :: string
  throttler_status :: "IThrottlerStatus option"

definition ThrottleThresholdSeconds :: real where
  "ThrottleThresholdSeconds = 60"

fun Number :: "jsSeconds \<Rightarrow> real option" where
  "Number SecondsUndefined = None"
| "Number SecondsNull = Some 0"
| "Number (SecondsNumber n) = Some (real_of_int n)"

text \<open>The condition of the \<open>if\<close> inside the loop over the streams of a state.\<close>

definition streamThrottled :: "int \<Rightarrow> IStream \<Rightarrow> bool" where
  "streamThrottled nowMs stream =
     (case throttler_status stream of
        None \<Rightarrow> False
      | Some status \<Rightarrow>
          (case time_throttled status of
             None \<Rightarrow> False
           | Some t \<Rightarrow>
               (case Number (seconds t) of
                  None \<Rightarrow> False
                | Some n \<Rightarrow> n > real_of_int nowMs / 1000 - ThrottleThresholdSeconds)))"

text \<open>
  The loop: \<open>numThrottled\<close> and \<open>throttledApp\<close> (the component of the first
  throttled stream) after the streams of one state have been visited.
\<close>

fun countThrottled :: "int \<Rightarrow> IStream list \<Rightarrow> nat \<times> string \<Rightarrow> nat \<times> string" where
  "countThrottled nowMs [] acc = acc"
| "countThrottled nowMs (stream # streams) (numThrottled, throttledApp) =
     (if streamThrottled nowMs stream then
        countThrottled nowMs streams
          (Suc numThrottled,
           if Suc numThrottled = 1 then
             (case throttler_status stream of
                None \<Rightarrow> ''undefined''
              | Some status \<Rightarrow>
                  (case component_throttled status of None \<Rightarrow> ''undefined'' | Some c \<Rightarrow> c))
           else throttledApp)
      else countThrottled nowMs streams (numThrottled, throttledApp))"

text \<open>
  One entry of the stream column: for a state of the list \<open>Error, Copying, Running,
  Stopped\<close> that the row has streams in, the state shown by the pip, the tooltip
  and the count; \<open>None\<close> is the placeholder.
\<close>

definition streamPip :: "int \<Rightarrow> (string \<Rightarrow> IStream list option) \<Rightarrow> string \<Rightarrow> (string \<times> string \<times> nat) option" where
  "streamPip nowMs rowStreams streamState =
     (case rowStreams streamState of
        None \<Rightarrow> None
      | Some streams \<Rightarrow>
          (let streamCount = length streams;
               (numThrottled, throttledApp) =
                 (if streamState = ''Running'' \<or> streamState = ''Copying''
                  then countThrottled nowMs streams (0, []) else (0, []));
               streamDescription =
                 (if streamState = ''Error'' then ''failed''
                  else if streamState = ''Running'' then ''running''
                  else if streamState = ''Copying'' then ''copying''
                  else if streamState = ''Stopped'' then ''stopped''
                  else streamState);
               shown = (if (streamState = ''Running'' \<or> streamState = ''Copying'') \<and> numThrottled > 0
                        then ''Throttled'' else streamState);
               tooltip = joinWith '' ''
                 [showNat streamCount, streamDescription,
                  if streamCount = 1 then ''stream'' else ''streams'',
                  if numThrottled > 0
                  then ''('' @ showNat numThrottled @ '' throttled in '' @ throttledApp @ '')''
                  else []]
           in Some (shown, tooltip, streamCount)))"

section \<open>Backup pruning (vtbackup, \<open>pruneBackups\<close>)\<close>

text \<open>
  The backup storage location is modelled by the list of backup names that
  \<open>ListBackups\<close> returns, oldest first.  Everything outside the function is a field
  of \<open>pruneEnv\<close>: the two flags, the outcome of \<open>ListBackups\<close>, the outcome of each
  \<open>RemoveBackup\<close>, \<open>time.Parse\<close> with the backup timestamp format, and the
  clock (its reading at the k-th call of \<open>time.Since\<close>).  Durations and instants are
  nanosecond counts; a \<open>time.Duration\<close> is a signed 64-bit count and \<open>Time.Sub\<close>
  saturates.
\<close>

record pruneEnv =
  minRetentionTime :: int
  minRetentionCount :: int
  listBackupsErr :: "string option"
  removeBackupErr :: "string \<Rightarrow> string option"
  timeParse :: "string \<Rightarrow> string + int"
  clock :: "nat \<Rightarrow> int"

definition minDuration :: int where
  "minDuration = - (2 ^ 63)"

definition maxDuration :: int where
  "maxDuration = 2 ^ 63 - 1"

definition timeSince :: "int \<Rightarrow> int \<Rightarrow> int" where
  "timeSince now t =
     (let d = now - t in
      if d < minDuration then minDuration else if maxDuration < d then maxDuration else d)"

fun splitOn :: "char \<Rightarrow> string \<Rightarrow> string list" where
  "splitOn c [] = [[]]"
| "splitOn c (x # xs) =
     (if x = c then [] # splitOn c xs
      else (case splitOn c xs of [] \<Rightarrow> [[x]] | p # ps \<Rightarrow> (x # p) # ps))"

definition parseBackupTime :: "pruneEnv \<Rightarrow> string \<Rightarrow> string + int" where
  "parseBackupTime env name =
     (case splitOn CHR ''.'' name of
        [date, tm, alias] \<Rightarrow>
          (case timeParse env (date @ ''.'' @ tm) of
             Inl e \<Rightarrow> Inl (''can't parse timestamp from backup '' @ name @ '': '' @ e)
           | Inr t \<Rightarrow> Inr t)
      | _ \<Rightarrow> Inl (''backup name not in expected format (date.time.tablet-alias): '' @ name))"

text \<open>
  \<open>RemoveBackup\<close>: a successful call takes the named backup out of the storage
  location; a failing call is taken to leave the location as it was.
\<close>

definition removeBackup :: "pruneEnv \<Rightarrow> string \<Rightarrow> string list \<Rightarrow> string + string list" where
  "removeBackup env name storage =
     (case removeBackupErr env name of
        Some e \<Rightarrow> Inl e
      | None \<Rightarrow> Inr (remove1 name storage))"

text \<open>
  The \<open>for _, backup := range backups\<close> loop.  Arguments: the index of the
  iteration, the backups still to visit, \<open>numBackups\<close>, and the storage location.
  The result is the returned error and the storage location left behind.
\<close>

fun pruneLoop :: "pruneEnv \<Rightarrow> nat \<Rightarrow> string list \<Rightarrow> int \<Rightarrow> string list
    \<Rightarrow> string option \<times> string list" where
  "pruneLoop env k [] numBackups storage = (None, storage)"
| "pruneLoop env k (backup # rest) numBackups storage =
     (case parseBackupTime env backup of
        Inl e \<Rightarrow> (Some e, storage)
      | Inr backupTime \<Rightarrow>
          if timeSince (clock env k) backupTime < minRetentionTime env then (None, storage)
          else
            (case removeBackup env backup storage of
               Inl e \<Rightarrow> (Some (''couldn't remove backup '' @ backup @ '': '' @ e), storage)
             | Inr storage' \<Rightarrow>
                 if numBackups - 1 = minRetentionCount env then (None, storage')
                 else pruneLoop env (Suc k) rest (numBackups - 1) storage'))"

definition pruneBackups :: "pruneEnv \<Rightarrow> string list \<Rightarrow> string option \<times> string list" where
  "pruneBackups env storage =
     (if minRetentionTime env = 0 then (None, storage)
      else
        (case listBackupsErr env of
           Some e \<Rightarrow> (Some (''can't list backups: '' @ e), storage)
         | None \<Rightarrow>
             if int (length storage) \<le> minRetentionCount env then (None, storage)
             else pruneLoop env 0 storage (int (length storage)) storage))"

section \<open>Vocabulary of the properties\<close>

text \<open>The name of the workflow lock a verb takes.\<close>

definition workflowLockName :: "trafficSwitcher \<Rightarrow> string" where
  "workflowLockName ts = targetKeyspace ts @ ''/'' @ workflow ts"



text \<open>
  The calls of \<open>switchWrites\<close> that come before the point of no return and are made
  only when no journal exists.
\<close>

definition prePointOfNoReturn :: "action \<Rightarrow> bool" where
  "prePointOfNoReturn a =
     (case a of
        BuildStreamMigrator \<Rightarrow> True
      | CancelMigration d \<Rightarrow> True
      | StopSourceWrites d \<Rightarrow> True
      | StopStreams d \<Rightarrow> True
      | ExecuteLockTablesOnSource n \<Rightarrow> True
      | GatherSourcePositions \<Rightarrow> True
      | WaitForCatchup d \<Rightarrow> True
      | MigrateStreams d \<Rightarrow> True
      | ResetSequences d \<Rightarrow> True
      | CreateReverseVReplication d \<Rightarrow> True
      | InitTargetSequences d \<Rightarrow> True
      | _ \<Rightarrow> False)"

text \<open>
  The calls \<open>switchWrites\<close> makes up to and including the check of the journals,
  when each of them succeeds.
\<close>

definition preJournalLog :: "WorkflowSwitchTrafficRequest \<Rightarrow> trafficSwitcher \<Rightarrow> action list" where
  "preJournalLog req ts =
     [Validate]
     @ (if EnableReverseReplication req
        then [ValidateShardsHaveVReplicationPermissions, AreTabletsAvailableToStreamFrom] else [])
     @ [LockKeyspace (DryRun req) (sourceKeyspace ts) ''SwitchWrites'']
     @ (if targetKeyspace ts \<noteq> sourceKeyspace ts
        then [LockKeyspace (DryRun req) (targetKeyspace ts) ''SwitchWrites''] else [])
     @ [MirrorTableTraffic (DryRun req) [PRIMARY] 0]
     @ (if InitializeTargetSequences req \<and> workflowType ts = MoveTables
           \<and> sourceKSSharded ts = Some False
        then [GetTargetSequenceMetadata] else [])
     @ [CheckJournals]"

text \<open>The calls of the tail of the flow, from the point of no return on.\<close>

definition pointOfNoReturnLog ::
  "WorkflowSwitchTrafficRequest \<Rightarrow> trafficSwitcher \<Rightarrow> string list \<Rightarrow> action list" where
  "pointOfNoReturnLog req ts sourceWorkflows =
     (if DryRun req then []
      else [CheckKeyspaceLocked 5 (sourceKeyspace ts), CheckKeyspaceLocked 5 (targetKeyspace ts)])
     @ [CreateJournals (DryRun req) sourceWorkflows, AllowTargetWrites (DryRun req),
        ChangeRouting (DryRun req), StreamMigraterfinalize (DryRun req) sourceWorkflows]
     @ (if EnableReverseReplication req then [StartReverseVReplication (DryRun req)] else [])
     @ [FreezeTargetVReplication (DryRun req)]"

text \<open>The deferred unlocks of \<open>switchWrites\<close>, in the order they run.\<close>

definition unlockLog :: "WorkflowSwitchTrafficRequest \<Rightarrow> trafficSwitcher \<Rightarrow> action list" where
  "unlockLog req ts =
     (if targetKeyspace ts \<noteq> sourceKeyspace ts
      then [UnlockKeyspace (DryRun req) (targetKeyspace ts)] else [])
     @ [UnlockKeyspace (DryRun req) (sourceKeyspace ts)]"

section \<open>Example inputs\<close>

text \<open>
  A storage location with three backups, all two hours old, under a retention time of
  one hour and a retention count of one.
\<close>

definition pruneEnvA :: pruneEnv where
  "pruneEnvA = \<lparr>minRetentionTime = 3600000000000, minRetentionCount = 1, listBackupsErr = None,
     removeBackupErr = (\<lambda>n. None), timeParse = (\<lambda>t. Inr 0), clock = (\<lambda>k. 7200000000000)\<rparr>"

definition storageA :: "string list" where
  "storageA = [''2024-01-01.000000.zone1-1'', ''2024-01-02.000000.zone1-1'',
     ''2024-01-03.000000.zone1-1'']"

text \<open>
  A \<open>DurationFromProto\<close> that adds up seconds and nanoseconds, and a
  \<open>parseTabletTypes\<close> that accepts the three serving types.
\<close>

definition durationOfProto :: "protoDuration option \<Rightarrow> int \<times> bool \<times> verror option" where
  "durationOfProto p =
     (case p of None \<Rightarrow> (0, False, None) | Some d \<Rightarrow> (Seconds d * second + Nanos d, True, None))"

definition tabletTypesOf :: "TabletType list \<Rightarrow> verror + (bool \<times> bool \<times> bool)" where
  "tabletTypesOf tts =
     (if list_ex (\<lambda>tt. tt \<noteq> PRIMARY \<and> tt \<noteq> REPLICA \<and> tt \<noteq> RDONLY) tts
      then Inl (Plain ''invalid tablet type passed'')
      else Inr (REPLICA \<in> set tts, RDONLY \<in> set tts, PRIMARY \<in> set tts))"

text \<open>
  A MoveTables workflow \<open>wf1\<close> that moves table \<open>t1\<close> from keyspace \<open>ks1\<close> to
  keyspace \<open>ks2\<close>, in a cluster of one cell; \<open>topoA ts reads writes\<close> is the
  topology in which read traffic, write traffic are switched or not.
\<close>

definition tsA :: trafficSwitcher where
  "tsA = \<lparr>workflow = ''wf1'', reverseWorkflow = ''wf1_reverse'', migrationId = 42,
     sourceKeyspace = ''ks1'', targetKeyspace = ''ks2'', tables = [''t1''], frozen = False,
     workflowType = MoveTables, migrationType = TABLES, isPartialMigration = False,
     isMultiTenant = False, tenantId = [], sourceKSSharded = Some False,
     SourceShards = [\<lparr>ShardName = ''0'', IsPrimaryServing = True\<rparr>],
     TargetShards = [\<lparr>ShardName = ''0'', IsPrimaryServing = True\<rparr>], force = False\<rparr>"

definition topoA :: "trafficSwitcher \<Rightarrow> bool \<Rightarrow> bool \<Rightarrow> topoView" where
  "topoA ts readsSwitched writesSwitched =
     \<lparr>buildTrafficSwitcher = (\<lambda>ks wn ign. Inr ts),
      updateKeyspaceRoutingState = (\<lambda>sk tk st. Inr st),
      updateKeyspaceRoutingStateNil = (\<lambda>sk tk. None),
      GetShardRoutingRules = Inr [],
      GetCellsWithTableReadsSwitched =
        (\<lambda>sk tk tb tt. Inr (if readsSwitched then ([''zone1''], []) else ([], [''zone1'']))),
      GetRoutingRules =
        Inr (\<lambda>k. if k = ''ks1.t1'' then [if writesSwitched then ''ks2.t1'' else ''ks1.t1''] else []),
      GetCellsWithShardReadsSwitched =
        (\<lambda>k si tt. Inr (if readsSwitched then ([''zone1''], []) else ([], [''zone1''])))\<rparr>"

definition workflowA :: "string \<Rightarrow> string \<Rightarrow> int \<Rightarrow> WorkflowInfo" where
  "workflowA st msg lag = \<lparr>MaxVReplicationTransactionLag = lag,
     ShardStreams = [(''0/zone1-100'', [\<lparr>StreamState = st, Message = msg\<rparr>])]\<rparr>"

text \<open>Collaborators whose every call succeeds, over a given topology and workflow.\<close>

definition envA :: "topoView \<Rightarrow> WorkflowInfo \<Rightarrow> env" where
  "envA tp wfl = \<lparr>outcome = (\<lambda>a. None), DurationFromProto = durationOfProto,
     parseTabletTypes = tabletTypesOf, topo = tp, topoAfter = tp,
     GetWorkflow = (\<lambda>ks wn shards. Inr wfl),
     refreshResult = (\<lambda>ks sh. (False, [], None)), journalsExist = False, journalWorkflows = [],
     stoppedWorkflows = [], targetSequenceMetadata = [], cellInfoNames = [''zone1''],
     rdonlyTabletsExist = True, dryRunLog = (\<lambda>t. []), stateString = (\<lambda>st. Workflow st),
     nowRFC822 = ''01 Jan 24 00:00 UTC''\<rparr>"

definition reqA :: WorkflowSwitchTrafficRequest where
  "reqA = \<lparr>reqKeyspace = ''ks2'', reqWorkflow = ''wf1'', Cells = [], TabletTypes = [PRIMARY],
     MaxReplicationLagAllowed = None, EnableReverseReplication = False,
     Direction = DirectionForward, Timeout = None, DryRun = False,
     InitializeTargetSequences = False, reqShards = [], Force = False\<rparr>"

definition cleanupA :: cleanupResults where
  "cleanupA = \<lparr>finalizeResults = None, dropSourcesResults = None,
     deleteResults = [(''zone1-0000000100'', 1)], isNoNode = (\<lambda>err. False)\<rparr>"

definition delReqA :: WorkflowDeleteRequest where
  "delReqA = \<lparr>delKeyspace = ''ks2'', delWorkflow = ''wf1'', delKeepData = False,
     delKeepRoutingRules = False, delShards = [], DeleteBatchSize = 1000,
     delIgnoreSourceKeyspace = False\<rparr>"

definition cmpReqA :: MoveTablesCompleteRequest where
  "cmpReqA = \<lparr>cmpWorkflow = ''wf1'', cmpTargetKeyspace = ''ks2'', cmpKeepData = False,
     cmpKeepRoutingRules = False, RenameTables = False, cmpDryRun = False,
     cmpIgnoreSourceKeyspace = False\<rparr>"

definition mirReqA :: WorkflowMirrorTrafficRequest where
  "mirReqA = \<lparr>mirKeyspace = ''ks2'', mirWorkflow = ''wf1'', mirTabletTypes = [REPLICA],
     Percent = 50\<rparr>"

text \<open>A stream whose throttler reported at second 1000.\<close>

definition streamA :: IStream where
  "streamA = \<lparr>state = ''Running'',
     throttler_status = Some \<lparr>component_throttled = Some ''vcopier'',
       time_throttled = Some \<lparr>seconds = SecondsNumber 1000\<rparr>\<rparr>\<rparr>"

text \<open>
  The states \<open>getWorkflowState\<close> reads for \<open>wf1\<close> in these topologies, the plan
  of a forward request for it, a multi-tenant variant of the workflow with its state, and
  the state read for the name \<open>wf1_reverse\<close>.
\<close>

definition stateA :: "bool \<Rightarrow> bool \<Rightarrow> State" where
  "stateA readsSwitched writesSwitched =
     \<lparr>Workflow = ''wf1'', SourceKeyspace = ''ks1'', TargetKeyspace = ''ks2'',
      WorkflowType = TypeMoveTables,
      ReplicaCellsSwitched = (if readsSwitched then [''zone1''] else []),
      ReplicaCellsNotSwitched = (if readsSwitched then [] else [''zone1'']),
      RdonlyCellsSwitched = (if readsSwitched then [''zone1''] else []),
      RdonlyCellsNotSwitched = (if readsSwitched then [] else [''zone1'']),
      WritesSwitched = writesSwitched, IsPartialMigration = False,
      ShardsAlreadySwitched = [], ShardsNotYetSwitched = [], IsReverse = False\<rparr>"


definition tsM :: trafficSwitcher where
  "tsM = tsA\<lparr>isMultiTenant := True, tenantId := ''tenant1''\<rparr>"

definition stateM :: State where
  "stateM = \<lparr>Workflow = ''wf1'', SourceKeyspace = ''ks1'', TargetKeyspace = ''ks2'',
      WorkflowType = TypeMoveTables, ReplicaCellsSwitched = [], ReplicaCellsNotSwitched = [],
      RdonlyCellsSwitched = [], RdonlyCellsNotSwitched = [], WritesSwitched = False,
      IsPartialMigration = False, ShardsAlreadySwitched = [], ShardsNotYetSwitched = [],
      IsReverse = False\<rparr>"

definition stateR :: State where
  "stateR = (stateA False False)\<lparr>Workflow := ''wf1_reverse'', IsReverse := True\<rparr>"

text \<open>
  The workflow \<open>wf1\<close> once its writes are switched and its streams frozen; a
  topology whose keyspace routing rules cannot be read.
\<close>

definition tsF :: trafficSwitcher where
  "tsF = tsA\<lparr>frozen := True\<rparr>"

definition topoU :: topoView where
  "topoU = (topoA tsM False False)
     \<lparr>updateKeyspaceRoutingState :=
        (\<lambda>sk tk st. Inl (Errorf UNAVAILABLE ''keyspace routing rules cannot be read''))\<rparr>"

text \<open>
  A partial MoveTables workflow \<open>wf1\<close>, which moves the shard \<open>-80\<close> of the
  tables from \<open>ks1\<close> to \<open>ks2\<close>, in the topology in which the traffic of that
  shard is switched (its shard routing rule leads to \<open>ks2\<close>), with the state read
  for it.
\<close>

definition tsP :: trafficSwitcher where
  "tsP = tsA\<lparr>isPartialMigration := True,
     SourceShards := [\<lparr>ShardName = ''-80'', IsPrimaryServing = True\<rparr>],
     TargetShards := [\<lparr>ShardName = ''-80'', IsPrimaryServing = True\<rparr>]\<rparr>"

definition topoP :: topoView where
  "topoP = (topoA tsP False False)
     \<lparr>GetShardRoutingRules :=
        Inr [\<lparr>FromKeyspace = ''ks1'', ToKeyspace = ''ks2'', Shard = ''-80''\<rparr>]\<rparr>"

definition stateP :: State where
  "stateP = \<lparr>Workflow = ''wf1'', SourceKeyspace = ''ks1'', TargetKeyspace = ''ks2'',
      WorkflowType = TypeMoveTables, ReplicaCellsSwitched = [], ReplicaCellsNotSwitched = [],
      RdonlyCellsSwitched = [], RdonlyCellsNotSwitched = [], WritesSwitched = False,
      IsPartialMigration = True, ShardsAlreadySwitched = [''-80''], ShardsNotYetSwitched = [],
      IsReverse = False\<rparr>"

text \<open>
  A Materialize workflow \<open>wf1\<close> that copies table \<open>t1\<close> from \<open>ks1\<close> to
  \<open>ks2\<close>.
\<close>

definition tsZ :: trafficSwitcher where
  "tsZ = tsA\<lparr>workflowType := Materialize\<rparr>"

section \<open>Properties of the switch of traffic\<close>

subsection \<open>Calls that are never made\<close>

lemma step_free:
  "\<not> P a \<Longrightarrow> \<forall>x\<in>set (snd k). \<not> P x \<Longrightarrow> \<forall>x\<in>set (snd (step e a msg k)). \<not> P x"
  by (auto simp: step_def split: option.splits prod.splits)

lemma confirm_free:
  "(\<And>n ks. \<not> P (CheckKeyspaceLocked n ks)) \<Longrightarrow> \<forall>x\<in>set (snd k). \<not> P x \<Longrightarrow>
   \<forall>x\<in>set (snd (confirmKeyspaceLocksHeld e dry n kss k)). \<not> P x"
  by (induction kss) (auto split: option.splits prod.splits)

lemma unlockNamed_free:
  "\<not> P a \<Longrightarrow> \<forall>x\<in>set (snd m). \<not> P x \<Longrightarrow> \<forall>x\<in>set (snd (unlockNamed e a m)). \<not> P x"
  by (auto simp: unlockNamed_def split: option.splits prod.splits sum.splits)

lemma withLogs_snd: "snd (withLogs e dry m) = snd m"
  by (auto simp: withLogs_def split: prod.splits sum.splits)

lemma if_free:
  "(c \<Longrightarrow> \<forall>x\<in>set (snd A). \<not> P x) \<Longrightarrow> (\<not> c \<Longrightarrow> \<forall>x\<in>set (snd B). \<not> P x) \<Longrightarrow>
   \<forall>x\<in>set (snd (if c then A else B)). \<not> P x"
  by simp

lemma done_free: "\<forall>x\<in>set (snd (r, [])). \<not> P x"
  by simp

lemma tail_free:
  "\<forall>x\<in>set (snd (switchWritesTail e req ts sw)). \<not> prePointOfNoReturn x"
  unfolding switchWritesTail_def Let_def if_distribR
  by (intro confirm_free step_free if_free done_free) (simp_all add: prePointOfNoReturn_def)

lemma journals_free:
  "journalsExist e \<Longrightarrow>
   \<forall>x\<in>set (snd (switchWritesJournals e req ts cancel sm)). \<not> prePointOfNoReturn x"
  unfolding switchWritesJournals_def
  by (intro confirm_free step_free if_free done_free tail_free) (simp_all add: prePointOfNoReturn_def)

lemma body_free:
  "journalsExist e \<Longrightarrow>
   \<forall>x\<in>set (snd (switchWritesBody e req ts w cancel)). \<not> prePointOfNoReturn x"
  unfolding switchWritesBody_def Let_def if_distribR
  by (intro confirm_free step_free if_free done_free unlockNamed_free journals_free)
     (simp_all add: prePointOfNoReturn_def)

lemma all_none:
  "\<forall>a\<in>set (xs @ ys). outcome e a = None \<Longrightarrow> (\<forall>a\<in>set xs. outcome e a = None) \<and> (\<forall>a\<in>set ys. outcome e a = None)"
  by auto

lemma tail_ok:
  assumes "\<forall>a\<in>set (pointOfNoReturnLog req ts sw). outcome e a = None"
  shows "switchWritesTail e req ts sw = (Inr (migrationId ts), pointOfNoReturnLog req ts sw)"
  using assms
  by (simp add: switchWritesTail_def pointOfNoReturnLog_def step_def Let_def split: if_splits)

lemma body_journals_ok:
  assumes "\<not> frozen ts" and "journalsExist e" and "\<not> cancel"
    and "\<forall>a\<in>set (preJournalLog req ts @ GatherPositions # pointOfNoReturnLog req ts (journalWorkflows e)
           @ unlockLog req ts). outcome e a = None"
  shows "switchWritesBody e req ts w cancel =
     (Inr (migrationId ts),
      preJournalLog req ts @ GatherPositions # pointOfNoReturnLog req ts (journalWorkflows e)
        @ unlockLog req ts)"
proof -
  from assms(4) have tl: "\<forall>a\<in>set (pointOfNoReturnLog req ts (journalWorkflows e)). outcome e a = None"
    by simp
  from assms(4) have pre: "\<forall>a\<in>set (preJournalLog req ts). outcome e a = None"
    and gp: "outcome e GatherPositions = None"
    and ul: "\<forall>a\<in>set (unlockLog req ts). outcome e a = None"
    by simp_all
  have j: "switchWritesJournals e req ts cancel sm =
      (Inr (migrationId ts), CheckJournals # GatherPositions # pointOfNoReturnLog req ts (journalWorkflows e))" for sm
    using assms(2,3) pre gp
    by (simp add: switchWritesJournals_def step_def tail_ok [OF tl] preJournalLog_def)
  show ?thesis
    using assms(1) pre ul
    by (simp add: switchWritesBody_def j step_def unlockNamed_def preJournalLog_def unlockLog_def Let_def
        split: if_splits)
qed

lemma body_cancel_journals:
  assumes "\<not> frozen ts" and "journalsExist e" and "cancel"
    and "\<forall>a\<in>set (preJournalLog req ts). outcome e a = None"
  shows "switchWritesBody e req ts w cancel =
     (Inl (Wrapping (Errorf FAILED_PRECONDITION
        ''traffic switching has reached the point of no return, cannot cancel'') ''invalid cancel''),
      preJournalLog req ts @ unlockLog req ts)"
proof -
  have j: "switchWritesJournals e req ts cancel sm =
      (Inl (Wrapping (Errorf FAILED_PRECONDITION
        ''traffic switching has reached the point of no return, cannot cancel'') ''invalid cancel''),
       [CheckJournals])" for sm
    using assms(2,3,4)
    by (simp add: switchWritesJournals_def step_def preJournalLog_def)
  show ?thesis
    using assms(1,4)
    by (simp add: switchWritesBody_def j step_def unlockNamed_def preJournalLog_def unlockLog_def Let_def
        split: if_splits)
qed

lemma body_cancel_fresh:
  assumes "\<not> frozen ts" and "\<not> journalsExist e" and "cancel"
    and "\<forall>a\<in>set (preJournalLog req ts @ BuildStreamMigrator # CancelMigration (DryRun req)
           # unlockLog req ts). outcome e a = None"
  shows "switchWritesBody e req ts w cancel =
     (Inr 0, preJournalLog req ts @ BuildStreamMigrator # CancelMigration (DryRun req) # unlockLog req ts)"
proof -
  have j: "switchWritesJournals e req ts cancel sm =
      (Inr 0, [CheckJournals, BuildStreamMigrator, CancelMigration (DryRun req)])" for sm
    using assms(2,3,4)
    by (simp add: switchWritesJournals_def step_def preJournalLog_def cancelled_def)
  show ?thesis
    using assms(1,4)
    by (simp add: switchWritesBody_def j step_def unlockNamed_def preJournalLog_def unlockLog_def Let_def
        split: if_splits)
qed

subsection \<open>The validation gate\<close>






























text \<open>
  C1.  The code at a request whose \<open>Timeout\<close> is set to less than one second: the
  verb makes no call and switches nothing, but the error it returns is nil, of code
  \<open>OK\<close>, since \<open>Wrap\<close> is handed the nil error of the successful parse.  The
  claim asks for an \<open>INVALID_ARGUMENT\<close> error here.
\<close>

theorem switchTraffic_short_timeout_returns_nil:
  assumes "DurationFromProto e (Timeout req) = (d, True, None)" and "d < second"
  shows "WorkflowSwitchTraffic e req = (Inr None, [])
         \<and> returnedError (WorkflowSwitchTraffic e req) = None
         \<and> Code (returnedError (WorkflowSwitchTraffic e req)) = OK"
  using assms
  by (simp add: WorkflowSwitchTraffic_def switchTrafficPrepare_def Wrap_def returnNil_def
      returnedError_def Code_def)

text \<open>
  C2, as amended.  In \<open>switchWrites\<close>, when journals exist on the sources, none of
  the calls that come before the point of no return is made, whatever else happens; for a
  workflow that is not frozen, when the calls
  succeed, the flow is the calls up to the check of the journals, then the tail alone
  (gather positions, confirm the locks, create journals, allow target writes, change
  routing, finalize, start the reverse streams if asked, freeze), then the unlocks, and
  the result is the migration id.  A cancellation that finds journals is refused with
  \<open>FAILED_PRECONDITION\<close> and makes no call after the check of the journals but the
  unlocks; a cancellation that finds no journal builds the stream migrator, cancels the
  migration and returns journal id 0 without any call of the tail.  On a frozen workflow
  \<open>switchWrites\<close> returns at once, with journal id 0 and no call made.
\<close>

theorem switchWrites_journals:
  "(journalsExist e
      \<longrightarrow> (\<forall>a\<in>set (snd (switchWrites e req ts w cancel)). \<not> prePointOfNoReturn a))
   \<and> (\<not> frozen ts \<and> journalsExist e \<and> \<not> cancel
       \<and> (\<forall>a\<in>set (preJournalLog req ts @ GatherPositions
                # pointOfNoReturnLog req ts (journalWorkflows e) @ unlockLog req ts).
              outcome e a = None)
      \<longrightarrow> snd (switchWrites e req ts w cancel) =
            preJournalLog req ts @ GatherPositions
              # pointOfNoReturnLog req ts (journalWorkflows e) @ unlockLog req ts
          \<and> (\<exists>logs. fst (switchWrites e req ts w cancel) = Inr (migrationId ts, logs)))
   \<and> (\<not> frozen ts \<and> journalsExist e \<and> cancel
       \<and> (\<forall>a\<in>set (preJournalLog req ts). outcome e a = None)
      \<longrightarrow> switchWrites e req ts w cancel =
            (Inl (Wrapping (Errorf FAILED_PRECONDITION
               ''traffic switching has reached the point of no return, cannot cancel'')
               ''invalid cancel''),
             preJournalLog req ts @ unlockLog req ts)
          \<and> Code (returnedError (switchWrites e req ts w cancel)) = FAILED_PRECONDITION)
   \<and> (\<not> frozen ts \<and> \<not> journalsExist e \<and> cancel
       \<and> (\<forall>a\<in>set (preJournalLog req ts @ BuildStreamMigrator # CancelMigration (DryRun req)
                # unlockLog req ts). outcome e a = None)
      \<longrightarrow> snd (switchWrites e req ts w cancel) =
            preJournalLog req ts @ BuildStreamMigrator # CancelMigration (DryRun req)
              # unlockLog req ts
          \<and> (\<exists>logs. fst (switchWrites e req ts w cancel) = Inr (0, logs)))
   \<and> (frozen ts
      \<longrightarrow> switchWrites e req ts w cancel = (Inr (0, swLogs e (DryRun req) []), []))"
proof (intro conjI impI)
  assume "journalsExist e"
  then show "\<forall>a\<in>set (snd (switchWrites e req ts w cancel)). \<not> prePointOfNoReturn a"
    by (simp add: switchWrites_def withLogs_snd body_free)
next
  assume h: "\<not> frozen ts \<and> journalsExist e \<and> \<not> cancel
       \<and> (\<forall>a\<in>set (preJournalLog req ts @ GatherPositions
                # pointOfNoReturnLog req ts (journalWorkflows e) @ unlockLog req ts).
              outcome e a = None)"
  then have b: "switchWritesBody e req ts w cancel =
     (Inr (migrationId ts),
      preJournalLog req ts @ GatherPositions # pointOfNoReturnLog req ts (journalWorkflows e)
        @ unlockLog req ts)"
    by (intro body_journals_ok) simp_all
  then show "snd (switchWrites e req ts w cancel) =
            preJournalLog req ts @ GatherPositions
              # pointOfNoReturnLog req ts (journalWorkflows e) @ unlockLog req ts"
    by (simp add: switchWrites_def withLogs_def)
  from b show "\<exists>logs. fst (switchWrites e req ts w cancel) = Inr (migrationId ts, logs)"
    by (simp add: switchWrites_def withLogs_def)
next
  assume h: "\<not> frozen ts \<and> journalsExist e \<and> cancel
       \<and> (\<forall>a\<in>set (preJournalLog req ts). outcome e a = None)"
  then have b: "switchWritesBody e req ts w cancel =
     (Inl (Wrapping (Errorf FAILED_PRECONDITION
        ''traffic switching has reached the point of no return, cannot cancel'') ''invalid cancel''),
      preJournalLog req ts @ unlockLog req ts)"
    by (intro body_cancel_journals) simp_all
  then show r: "switchWrites e req ts w cancel =
            (Inl (Wrapping (Errorf FAILED_PRECONDITION
               ''traffic switching has reached the point of no return, cannot cancel'')
               ''invalid cancel''),
             preJournalLog req ts @ unlockLog req ts)"
    by (simp add: switchWrites_def withLogs_def)
  show "Code (returnedError (switchWrites e req ts w cancel)) = FAILED_PRECONDITION"
    unfolding r by (simp add: returnedError_def Code_def Errorf_def)
next
  assume h: "\<not> frozen ts \<and> \<not> journalsExist e \<and> cancel
       \<and> (\<forall>a\<in>set (preJournalLog req ts @ BuildStreamMigrator # CancelMigration (DryRun req)
                # unlockLog req ts). outcome e a = None)"
  then have b: "switchWritesBody e req ts w cancel =
     (Inr 0, preJournalLog req ts @ BuildStreamMigrator # CancelMigration (DryRun req)
               # unlockLog req ts)"
    by (intro body_cancel_fresh) simp_all
  then show "snd (switchWrites e req ts w cancel) =
            preJournalLog req ts @ BuildStreamMigrator # CancelMigration (DryRun req)
              # unlockLog req ts"
    by (simp add: switchWrites_def withLogs_def)
  from b show "\<exists>logs. fst (switchWrites e req ts w cancel) = Inr (0, logs)"
    by (simp add: switchWrites_def withLogs_def)
next
  assume "frozen ts"
  then show "switchWrites e req ts w cancel = (Inr (0, swLogs e (DryRun req) []), [])"
    by (simp add: switchWrites_def switchWritesBody_def withLogs_def Let_def)
qed







text \<open>
  C6, as amended.  For a multi-tenant migration, a request of direction backward that includes
  primary traffic never gets as far as a call (no lock is taken, nothing is switched) and
  never succeeds; and when its timeout and its lag parse (the timeout being at least
  one second), the workflow is not a Migrate one and the keyspace routing rules can be
  read, it is rejected with \<open>INVALID_ARGUMENT\<close>, \<open>cannot reverse write traffic for
  multi-tenant migrations\<close>.
\<close>

theorem multiTenant_reverse_writes_rejected:
  assumes "getWorkflowState (topo e) (reqKeyspace req) (reqWorkflow req) False = Inr (ts, st0)"
    and "isMultiTenant ts"
    and "Direction req = DirectionBackward"
    and "parseTabletTypes e (TabletTypes req) = Inr (switchReplica, switchRdonly, True)"
  shows "snd (WorkflowSwitchTraffic e req) = []
       \<and> (\<forall>resp. fst (WorkflowSwitchTraffic e req) \<noteq> Inr (Some resp))
       \<and> (DurationFromProto e (Timeout req) = (d, isSet, None)
          \<and> second \<le> (if isSet then d else DefaultTimeout)
          \<and> DurationFromProto e (MaxReplicationLagAllowed req) = (lag, lagSet, None)
          \<and> WorkflowType st0 \<noteq> TypeMigrate
          \<and> updateKeyspaceRoutingState (topo e) (sourceKeyspace ts) (targetKeyspace ts) st0 = Inr st
          \<longrightarrow> WorkflowSwitchTraffic e req =
                (Inl (Errorf INVALID_ARGUMENT ''cannot reverse write traffic for multi-tenant migrations''),
                 [])
              \<and> Code (returnedError (WorkflowSwitchTraffic e req)) = INVALID_ARGUMENT)"
proof (intro conjI impI)
  have early: "\<exists>r. switchTrafficPrepare e req = Inl r \<and> (\<forall>resp. r \<noteq> Inr (Some resp))"
    using assms
    by (auto simp: switchTrafficPrepare_def Let_def returnNil_def Wrap_def Wrapf_def
        split: prod.splits sum.splits option.splits)
  then show "snd (WorkflowSwitchTraffic e req) = []"
    by (auto simp: WorkflowSwitchTraffic_def)
  from early show "\<forall>resp. fst (WorkflowSwitchTraffic e req) \<noteq> Inr (Some resp)"
    by (auto simp: WorkflowSwitchTraffic_def)
next
  assume h: "DurationFromProto e (Timeout req) = (d, isSet, None)
          \<and> second \<le> (if isSet then d else DefaultTimeout)
          \<and> DurationFromProto e (MaxReplicationLagAllowed req) = (lag, lagSet, None)
          \<and> WorkflowType st0 \<noteq> TypeMigrate
          \<and> updateKeyspaceRoutingState (topo e) (sourceKeyspace ts) (targetKeyspace ts) st0 = Inr st"
  with assms show r: "WorkflowSwitchTraffic e req =
                (Inl (Errorf INVALID_ARGUMENT ''cannot reverse write traffic for multi-tenant migrations''),
                 [])"
    by (auto simp: WorkflowSwitchTraffic_def switchTrafficPrepare_def Let_def)
  show "Code (returnedError (WorkflowSwitchTraffic e req)) = INVALID_ARGUMENT"
    unfolding r by (simp add: returnedError_def Code_def Errorf_def)
qed


section \<open>Properties of deleting, completing and mirroring\<close>

lemma getWorkflowState_lookup_not_switched:
  assumes "getWorkflowState tp ks wn ign = Inr (ts, st)" and "workflowType ts = CreateLookupIndex"
  shows "\<not> WritesSwitched st"
  using assms
  by (auto simp: getWorkflowState_def newState_def Let_def split: sum.splits if_splits)

lemma shardRulesState_type: "WorkflowType (shardRulesState s t rules st) = WorkflowType st"
proof -
  have "WorkflowType (foldl f st rules) = WorkflowType st"
    if "\<And>x r. WorkflowType (f x r) = WorkflowType x" for f :: "State \<Rightarrow> ShardRoutingRule \<Rightarrow> State"
    using that by (induction rules arbitrary: st) simp_all
  then show ?thesis by (simp add: shardRulesState_def)
qed

lemma moveTablesState_type:
  "\<not> isMultiTenant ts \<Longrightarrow> moveTablesState tp ts s t w st = Inr st' \<Longrightarrow> WorkflowType st' = WorkflowType st"
  by (auto simp: moveTablesState_def shardRulesState_type split: list.splits sum.splits if_splits prod.splits)

lemma reshardState_type:
  "reshardState tp ts t st = Inr st' \<Longrightarrow> WorkflowType st' = WorkflowType st"
  by (auto simp: reshardState_def split: list.splits sum.splits if_splits prod.splits)

lemma getWorkflowState_moveTables:
  assumes "getWorkflowState tp ks wn ign = Inr (ts, st)" and "\<not> isMultiTenant ts"
    and "WorkflowType st = TypeMoveTables"
  shows "migrationType ts = TABLES"
proof (rule ccontr)
  assume "migrationType ts \<noteq> TABLES"
  with assms show False
    by (auto simp: getWorkflowState_def newState_def Let_def
        dest!: reshardState_type split: sum.splits if_splits)
qed

lemma cannotSwitchTabletTypes_iff:
  "cannotSwitchTabletTypes st tts \<noteq> [] \<longleftrightarrow>
     (RDONLY \<in> set tts \<and> RdonlyCellsSwitched st \<noteq> [])
     \<or> (REPLICA \<in> set tts \<and> ReplicaCellsSwitched st \<noteq> [])
     \<or> (PRIMARY \<in> set tts \<and> WritesSwitched st)"
  by (induction tts) auto

text \<open>
  What \<open>WorkflowDelete\<close> does with the flag \<open>WritesSwitched\<close> of the state it
  reads: when the flag is set, it returns the error \<open>cannot delete workflow because you
  have already switched write traffic\<close> and makes no call; when it is not, the verb
  takes the workflow lock and goes on with the deletion, which, the calls succeeding,
  deletes the workflow on the tablets and returns no error.
\<close>

lemma workflowDelete_writes_switched:
  assumes "getWorkflowState (topo e) (delKeyspace req) (delWorkflow req) (delIgnoreSourceKeyspace req)
             = Inr (ts, st)"
  shows "(WritesSwitched st \<longrightarrow> WorkflowDelete e cr req = (Inl ErrWorkflowDeleteWritesSwitched, []))
       \<and> (\<not> WritesSwitched st
            \<and> outcome e (LockName (workflowLockName ts) ''WorkflowDelete'') = None
          \<longrightarrow> WorkflowDelete e cr req =
                (case workflowDeleteLocked e cr req ts st of
                   (r, t) \<Rightarrow> (r, LockName (workflowLockName ts) ''WorkflowDelete'' # t
                                  @ [UnlockName (workflowLockName ts)])))
       \<and> (\<not> WritesSwitched st \<and> (\<forall>a. outcome e a = None) \<and> WorkflowType st \<noteq> TypeMigrate
            \<and> (isMultiTenant ts \<longrightarrow> workflowType ts = MoveTables)
          \<longrightarrow> returnedError (WorkflowDelete e cr req) = None
              \<and> DeleteVReplicationWorkflow (delShards req) \<in> set (snd (WorkflowDelete e cr req)))"
proof (intro conjI impI)
  assume w: "WritesSwitched st"
  with getWorkflowState_lookup_not_switched [OF assms] have "workflowType ts \<noteq> CreateLookupIndex"
    by auto
  with assms w show "WorkflowDelete e cr req = (Inl ErrWorkflowDeleteWritesSwitched, [])"
    by (simp add: WorkflowDelete_def)
next
  assume "\<not> WritesSwitched st \<and> outcome e (LockName (workflowLockName ts) ''WorkflowDelete'') = None"
  with assms show "WorkflowDelete e cr req =
                (case workflowDeleteLocked e cr req ts st of
                   (r, t) \<Rightarrow> (r, LockName (workflowLockName ts) ''WorkflowDelete'' # t
                                  @ [UnlockName (workflowLockName ts)]))"
    by (simp add: WorkflowDelete_def workflowLockName_def unlockLocal_def Let_def split: prod.splits)
next
  assume h: "\<not> WritesSwitched st \<and> (\<forall>a. outcome e a = None) \<and> WorkflowType st \<noteq> TypeMigrate
            \<and> (isMultiTenant ts \<longrightarrow> workflowType ts = MoveTables)"
  with assms show "returnedError (WorkflowDelete e cr req) = None"
    by (simp add: WorkflowDelete_def workflowDeleteLocked_def unlockLocal_def Let_def returnedError_def
        andThen_def step_def plainStep_def)
next
  assume h: "\<not> WritesSwitched st \<and> (\<forall>a. outcome e a = None) \<and> WorkflowType st \<noteq> TypeMigrate
            \<and> (isMultiTenant ts \<longrightarrow> workflowType ts = MoveTables)"
  with assms show "DeleteVReplicationWorkflow (delShards req) \<in> set (snd (WorkflowDelete e cr req))"
    by (simp add: WorkflowDelete_def workflowDeleteLocked_def unlockLocal_def Let_def
        andThen_def step_def plainStep_def)
qed

lemma shardRulesState_writes: "WritesSwitched (shardRulesState s t rules st) = WritesSwitched st"
proof -
  have "WritesSwitched (foldl f st rules) = WritesSwitched st"
    if "\<And>x r. WritesSwitched (f x r) = WritesSwitched x" for f :: "State \<Rightarrow> ShardRoutingRule \<Rightarrow> State"
    using that by (induction rules arbitrary: st) simp_all
  then show ?thesis by (simp add: shardRulesState_def)
qed

lemma getWorkflowState_partial:
  assumes "getWorkflowState tp ks wn ign = Inr (ts, st)"
    and "migrationType ts = TABLES" and "isPartialMigration ts" and "\<not> isMultiTenant ts"
  shows "\<not> WritesSwitched st"
  using assms
  by (auto simp: getWorkflowState_def newState_def moveTablesState_def shardRulesState_writes Let_def
      split: sum.splits if_splits list.splits)

lemma getWorkflowState_type:
  assumes "getWorkflowState tp ks wn ign = Inr (ts, st)" and "\<not> isMultiTenant ts"
    and "workflowType ts \<noteq> Migrate" and "workflowType ts \<noteq> CreateLookupIndex"
  shows "WorkflowType st = (if migrationType ts = TABLES then TypeMoveTables else TypeReshard)"
  using assms
  by (auto simp: getWorkflowState_def newState_def Let_def
      dest!: reshardState_type moveTablesState_type split: sum.splits if_splits)

text \<open>
  C4.  The code at a partial migration of tables whose state lists shards as already
  switched (their shard routing rules lead to the target keyspace, which is how the
  traffic of a shard, writes included, is switched): the branch of
  \<open>getWorkflowState\<close> for partial migrations never sets \<open>WritesSwitched\<close>, so
  \<open>WorkflowDelete\<close> does not refuse.  It takes the workflow lock, drops the targets
  and deletes the workflow on the tablets, and returns no error.  The claim asks for the
  refusal here.
\<close>

theorem workflowDelete_partial_migration:
  assumes "getWorkflowState (topo e) (delKeyspace req) (delWorkflow req) (delIgnoreSourceKeyspace req)
             = Inr (ts, st)"
    and "workflowType ts = MoveTables" and "migrationType ts = TABLES"
    and "isPartialMigration ts" and "\<not> isMultiTenant ts"
    and "ShardsAlreadySwitched st \<noteq> []"
    and "outcome e (LockName (workflowLockName ts) ''WorkflowDelete'') = None"
    and "outcome e (DropTargets (delKeepData req) (delKeepRoutingRules req) False) = None"
    and "outcome e (DeleteVReplicationWorkflow (delShards req)) = None"
  shows "\<not> WritesSwitched st
       \<and> returnedError (WorkflowDelete e cr req) = None
       \<and> snd (WorkflowDelete e cr req) =
           [LockName (workflowLockName ts) ''WorkflowDelete'',
            DropTargets (delKeepData req) (delKeepRoutingRules req) False,
            DeleteVReplicationWorkflow (delShards req),
            UnlockName (workflowLockName ts)]"
proof -
  have w: "\<not> WritesSwitched st"
    by (rule getWorkflowState_partial [OF assms(1,3,4,5)])
  have t: "WorkflowType st = TypeMoveTables"
    using getWorkflowState_type [OF assms(1,5)] assms(2,3) by simp
  have d: "workflowDeleteLocked e cr req ts st =
      (Inr (Some \<lparr>delSummary = ''Successfully cancelled the '' @ delWorkflow req
                      @ '' workflow in the '' @ delKeyspace req @ '' keyspace'',
                   Details = sort_key fst (map (\<lambda>(alias, rows). (alias, 0 < rows)) (deleteResults cr))\<rparr>),
       [DropTargets (delKeepData req) (delKeepRoutingRules req) False,
        DeleteVReplicationWorkflow (delShards req)])"
    using t assms(2,5,8,9)
    by (simp add: workflowDeleteLocked_def andThen_def plainStep_def)
  from assms(1,7) w d show ?thesis
    by (simp add: WorkflowDelete_def workflowLockName_def unlockLocal_def returnedError_def Let_def)
qed

text \<open>
  C5.  For a workflow that is not a Migrate one and whose state can be read: when writes
  are not switched, or a cell has unswitched REPLICA reads, or a cell has unswitched
  RDONLY reads, \<open>MoveTablesComplete\<close> returns an error and its only calls are on the
  workflow lock (nothing is removed), the error being \<open>cannot complete workflow because
  you have not yet switched all read and write traffic\<close> once the lock is taken; when
  all three are switched and the lock is taken, it drops the sources.
\<close>

theorem moveTablesComplete_requires_switched:
  assumes "getWorkflowState (topo e) (cmpTargetKeyspace req) (cmpWorkflow req)
             (cmpIgnoreSourceKeyspace req) = Inr (ts, st)"
    and "WorkflowType st \<noteq> TypeMigrate"
  shows "(\<not> WritesSwitched st \<or> ReplicaCellsNotSwitched st \<noteq> [] \<or> RdonlyCellsNotSwitched st \<noteq> []
            \<longrightarrow> returnedError (MoveTablesComplete e cr req) \<noteq> None
                \<and> set (snd (MoveTablesComplete e cr req))
                    \<subseteq> {LockName (workflowLockName ts) ''MoveTablesComplete'',
                        UnlockName (workflowLockName ts)}
                \<and> (outcome e (LockName (workflowLockName ts) ''MoveTablesComplete'') = None
                    \<longrightarrow> fst (MoveTablesComplete e cr req) = Inl ErrWorkflowCompleteNotFullySwitched))
       \<and> (WritesSwitched st \<and> ReplicaCellsNotSwitched st = [] \<and> RdonlyCellsNotSwitched st = []
            \<and> outcome e (LockName (workflowLockName ts) ''MoveTablesComplete'') = None
            \<longrightarrow> snd (MoveTablesComplete e cr req) =
                  [LockName (workflowLockName ts) ''MoveTablesComplete'',
                   DropSources (RenameTables req) (cmpKeepData req) (cmpKeepRoutingRules req) False
                     (cmpDryRun req),
                   UnlockName (workflowLockName ts)]
                \<and> returnedError (MoveTablesComplete e cr req)
                    = outcome e (DropSources (RenameTables req) (cmpKeepData req)
                        (cmpKeepRoutingRules req) False (cmpDryRun req)))"
proof -
  let ?l = "workflowLockName ts"
  show ?thesis
  proof (cases "outcome e (LockName ?l ''MoveTablesComplete'')")
    case (Some lockErr)
    with assms show ?thesis
      by (simp add: MoveTablesComplete_def workflowLockName_def returnedError_def Let_def)
  next
    case None
    show ?thesis
    proof (cases "\<not> WritesSwitched st \<or> ReplicaCellsNotSwitched st \<noteq> [] \<or> RdonlyCellsNotSwitched st \<noteq> []")
      case True
      then have "moveTablesCompleteLocked e cr req ts st = (Inl ErrWorkflowCompleteNotFullySwitched, [])"
        using assms(2) by (simp add: moveTablesCompleteLocked_def Let_def)
      with assms(1) None True show ?thesis
        by (simp add: MoveTablesComplete_def workflowLockName_def returnedError_def Let_def
            unlockLocal_def)
    next
      case False
      then have "moveTablesCompleteLocked e cr req ts st =
          plainStep e (DropSources (RenameTables req) (cmpKeepData req) (cmpKeepRoutingRules req) False
                       (cmpDryRun req))
          (Inr \<lparr>cmpSummary = (if cmpDryRun req then
               ''Complete dry run results for workflow '' @ cmpTargetKeyspace req @ ''.''
               @ cmpWorkflow req @ '' at '' @ nowRFC822 e
             else ''Successfully completed the '' @ cmpWorkflow req @ '' workflow in the ''
                  @ cmpTargetKeyspace req @ '' keyspace''),
                cmpDryRunResults = (case dropSourcesResults cr of None \<Rightarrow> [] | Some l \<Rightarrow> l)\<rparr>, [])"
        using assms(2) by (simp add: moveTablesCompleteLocked_def Let_def)
      with assms(1) None False show ?thesis
        by (cases "outcome e (DropSources (RenameTables req) (cmpKeepData req) (cmpKeepRoutingRules req) False
                       (cmpDryRun req))")
           (simp_all add: MoveTablesComplete_def workflowLockName_def returnedError_def Let_def
            unlockLocal_def plainStep_def)
    qed
  qed
qed

text \<open>
  What \<open>WorkflowMirrorTraffic\<close> refuses, by the workflow type of the state it reads:
  it returns \<open>INVALID_ARGUMENT\<close> and makes no call when that type is not
  \<open>TypeMoveTables\<close>, or the workflow
  is a reverse workflow, or is a partial or a multi-tenant migration; for a workflow that
  is none of these it returns \<open>FAILED_PRECONDITION\<close>, \<open>traffic for those tablet
  types is switched\<close>, and makes no call when a requested tablet type is switched
  (RDONLY with rdonly cells switched, REPLICA with replica cells switched, PRIMARY with
  writes switched).
\<close>

lemma mirrorTraffic_refusals:
  assumes "getWorkflowState (topo e) (mirKeyspace req) (mirWorkflow req) False = Inr (ts, st)"
  shows "(WorkflowType st \<noteq> TypeMoveTables \<or> IsReverse st \<or> isPartialMigration ts \<or> isMultiTenant ts
            \<longrightarrow> Code (returnedError (WorkflowMirrorTraffic e req)) = INVALID_ARGUMENT
                \<and> snd (WorkflowMirrorTraffic e req) = [])
       \<and> (WorkflowType st = TypeMoveTables \<and> \<not> IsReverse st \<and> \<not> isPartialMigration ts
           \<and> \<not> isMultiTenant ts
           \<and> ((RDONLY \<in> set (mirTabletTypes req) \<and> RdonlyCellsSwitched st \<noteq> [])
              \<or> (REPLICA \<in> set (mirTabletTypes req) \<and> ReplicaCellsSwitched st \<noteq> [])
              \<or> (PRIMARY \<in> set (mirTabletTypes req) \<and> WritesSwitched st))
            \<longrightarrow> WorkflowMirrorTraffic e req =
                  (Inl (Errorf FAILED_PRECONDITION
                     (''cannot mirror ['' @ joinWith '','' (cannotSwitchTabletTypes st (mirTabletTypes req))
                      @ ''] traffic for workflow '' @ Workflow st
                      @ '' at this time: traffic for those tablet types is switched'')), [])
                \<and> Code (returnedError (WorkflowMirrorTraffic e req)) = FAILED_PRECONDITION)"
proof (intro conjI impI)
  assume "WorkflowType st \<noteq> TypeMoveTables \<or> IsReverse st \<or> isPartialMigration ts \<or> isMultiTenant ts"
  with assms show "Code (returnedError (WorkflowMirrorTraffic e req)) = INVALID_ARGUMENT"
    by (auto simp: WorkflowMirrorTraffic_def returnedError_def Code_def Errorf_def)
next
  assume "WorkflowType st \<noteq> TypeMoveTables \<or> IsReverse st \<or> isPartialMigration ts \<or> isMultiTenant ts"
  with assms show "snd (WorkflowMirrorTraffic e req) = []"
    by (auto simp: WorkflowMirrorTraffic_def)
next
  assume h: "WorkflowType st = TypeMoveTables \<and> \<not> IsReverse st \<and> \<not> isPartialMigration ts
           \<and> \<not> isMultiTenant ts
           \<and> ((RDONLY \<in> set (mirTabletTypes req) \<and> RdonlyCellsSwitched st \<noteq> [])
              \<or> (REPLICA \<in> set (mirTabletTypes req) \<and> ReplicaCellsSwitched st \<noteq> [])
              \<or> (PRIMARY \<in> set (mirTabletTypes req) \<and> WritesSwitched st))"
  then have t: "migrationType ts = TABLES"
    using getWorkflowState_moveTables [OF assms] by simp
  from h have c: "cannotSwitchTabletTypes st (mirTabletTypes req) \<noteq> []"
    by (simp add: cannotSwitchTabletTypes_iff)
  from assms h t c show r: "WorkflowMirrorTraffic e req =
                  (Inl (Errorf FAILED_PRECONDITION
                     (''cannot mirror ['' @ joinWith '','' (cannotSwitchTabletTypes st (mirTabletTypes req))
                      @ ''] traffic for workflow '' @ Workflow st
                      @ '' at this time: traffic for those tablet types is switched'')), [])"
    by (simp add: WorkflowMirrorTraffic_def)
  then show "Code (returnedError (WorkflowMirrorTraffic e req)) = FAILED_PRECONDITION"
    by (simp add: returnedError_def Code_def Errorf_def)
qed

text \<open>
  C7.  The code at a Materialize workflow between two keyspaces.  \<open>getWorkflowState\<close>
  gives every migration of tables that is not a Migrate one the type
  \<open>TypeMoveTables\<close>, and that type is all \<open>WorkflowMirrorTraffic\<close> looks at: a
  Materialize workflow that is neither reverse, partial nor multi-tenant, and none of
  whose requested tablet types is switched, is not refused.  The verb validates the
  workflow, mirrors the traffic of its tables and returns no error.  The claim, like the
  comment in the verb (\<open>reject everything but basic MoveTables\<close>), asks for
  \<open>INVALID_ARGUMENT\<close> here.
\<close>

theorem mirrorTraffic_materialize:
  assumes "getWorkflowState (topo e) (mirKeyspace req) (mirWorkflow req) False = Inr (ts, st)"
    and "workflowType ts = Materialize" and "migrationType ts = TABLES"
    and "\<not> isPartialMigration ts" and "\<not> isMultiTenant ts" and "\<not> IsReverse st"
    and "cannotSwitchTabletTypes st (mirTabletTypes req) = []"
    and "outcome e Validate = None"
    and "outcome e (MirrorTableTraffic False (mirTabletTypes req) (Percent req)) = None"
  shows "WorkflowType st = TypeMoveTables
       \<and> returnedError (WorkflowMirrorTraffic e req) = None
       \<and> snd (WorkflowMirrorTraffic e req) =
           [Validate, MirrorTableTraffic False (mirTabletTypes req) (Percent req)]"
proof -
  have t: "WorkflowType st = TypeMoveTables"
    using getWorkflowState_type [OF assms(1,5)] assms(2,3) by simp
  have m: "mirrorTraffic e req ts st =
      (Inr (), [Validate, MirrorTableTraffic False (mirTabletTypes req) (Percent req)])"
    using assms(8,9) by (simp add: mirrorTraffic_def plainStep_def)
  from assms(1,3,4,5,6,7) t m show ?thesis
    by (simp add: WorkflowMirrorTraffic_def andThen_def returnedError_def)
qed

section \<open>Properties of the stream states\<close>

lemma countThrottled_fst:
  "fst (countThrottled nowMs streams (n, app)) = n + length (filter (streamThrottled nowMs) streams)"
  by (induction streams arbitrary: n app) simp_all

text \<open>
  C8.  The window is 60 seconds.  A stream is counted as throttled exactly when its
  \<open>throttler_status.time_throttled\<close> is there with a numeric \<open>seconds\<close> and
  \<open>now - time_throttled < 60\<close> seconds; and the pip of the Running or the Copying
  streams of a row shows \<open>Throttled\<close> exactly when one of these streams is
  throttled.
\<close>

theorem streamThrottled_window:
  "ThrottleThresholdSeconds = 60
   \<and> (streamThrottled nowMs stream \<longleftrightarrow>
        (\<exists>status t n. throttler_status stream = Some status \<and> time_throttled status = Some t
           \<and> Number (seconds t) = Some n \<and> real_of_int nowMs / 1000 - n < 60))
   \<and> ((streamState = ''Running'' \<or> streamState = ''Copying'')
        \<and> rowStreams streamState = Some streams
       \<longrightarrow> (\<exists>tooltip. streamPip nowMs rowStreams streamState =
              Some (if list_ex (streamThrottled nowMs) streams then ''Throttled'' else streamState,
                    tooltip, length streams)))"
proof (intro conjI impI)
  show "ThrottleThresholdSeconds = 60" by (simp add: ThrottleThresholdSeconds_def)
  show "streamThrottled nowMs stream \<longleftrightarrow>
        (\<exists>status t n. throttler_status stream = Some status \<and> time_throttled status = Some t
           \<and> Number (seconds t) = Some n \<and> real_of_int nowMs / 1000 - n < 60)"
    by (auto simp: streamThrottled_def ThrottleThresholdSeconds_def split: option.splits)
next
  assume h: "(streamState = ''Running'' \<or> streamState = ''Copying'')
        \<and> rowStreams streamState = Some streams"
  obtain n app where c: "countThrottled nowMs streams (0, []) = (n, app)"
    by (cases "countThrottled nowMs streams (0, [])")
  with countThrottled_fst [of nowMs streams 0 "[]"]
  have n: "n = length (filter (streamThrottled nowMs) streams)" by simp
  have "(0 < n) = list_ex (streamThrottled nowMs) streams"
    unfolding n by (induction streams) auto
  with h c show "\<exists>tooltip. streamPip nowMs rowStreams streamState =
              Some (if list_ex (streamThrottled nowMs) streams then ''Throttled'' else streamState,
                    tooltip, length streams)"
    by (auto simp: streamPip_def Let_def simp del: showNat.simps)
qed

section \<open>Properties of backup pruning\<close>

lemma pruneLoop_keeps:
  "minRetentionCount env < int (length bs) \<Longrightarrow>
   pruneLoop env k bs (int (length bs)) bs = (r, final) \<Longrightarrow>
   minRetentionCount env \<le> int (length final) \<and> suffix final bs"
proof (induction bs arbitrary: k)
  case Nil
  then show ?case by simp
next
  case (Cons b bs)
  show ?case
  proof (cases "parseBackupTime env b")
    case (Inl e)
    with Cons.prems show ?thesis by auto
  next
    case (Inr t)
    show ?thesis
    proof (cases "timeSince (clock env k) t < minRetentionTime env")
      case True
      with Inr Cons.prems show ?thesis by auto
    next
      case old: False
      show ?thesis
      proof (cases "removeBackupErr env b")
        case (Some e)
        with Inr old Cons.prems show ?thesis by (auto simp: removeBackup_def)
      next
        case None
        show ?thesis
        proof (cases "int (length bs) = minRetentionCount env")
          case True
          with Inr old None Cons.prems show ?thesis
            by (auto simp: removeBackup_def suffix_Cons)
        next
          case False
          with Cons.prems have lt: "minRetentionCount env < int (length bs)" by simp
          from Inr old None False Cons.prems
          have "pruneLoop env (Suc k) bs (int (length bs)) bs = (r, final)"
            by (simp add: removeBackup_def)
          from Cons.IH [OF lt this] show ?thesis by (simp add: suffix_Cons)
        qed
      qed
    qed
  qed
qed

text \<open>
  C10.  \<open>pruneBackups\<close> never removes a backup when that would leave fewer than
  \<open>minRetentionCount\<close> backups in the storage location: whenever it has changed
  the location, at least \<open>minRetentionCount\<close> backups are left, and what is left
  is the newest part of what was there; it changes nothing when the backup count is at
  or below \<open>minRetentionCount\<close>; and with \<open>minRetentionTime = 0\<close> it removes
  nothing at all and reports no error, whatever the age of the backups.
\<close>

theorem pruneBackups_retention:
  "pruneBackups env storage = (r, final) \<Longrightarrow>
     suffix final storage
     \<and> (final \<noteq> storage \<longrightarrow> minRetentionCount env \<le> int (length final))
     \<and> (int (length storage) \<le> minRetentionCount env \<longrightarrow> final = storage)
     \<and> (minRetentionTime env = 0 \<longrightarrow> final = storage \<and> r = None)"
proof (cases "minRetentionTime env = 0 \<or> listBackupsErr env \<noteq> None
    \<or> int (length storage) \<le> minRetentionCount env")
  case True
  assume "pruneBackups env storage = (r, final)"
  with True show ?thesis
    by (auto simp: pruneBackups_def split: if_splits option.splits)
next
  case False
  assume run: "pruneBackups env storage = (r, final)"
  from False have lt: "minRetentionCount env < int (length storage)" by simp
  from False run
  have "pruneLoop env 0 storage (int (length storage)) storage = (r, final)"
    by (auto simp: pruneBackups_def)
  from pruneLoop_keeps [OF lt this] False show ?thesis by simp
qed

lemma pruneBackups_storageA:
  "pruneBackups pruneEnvA storageA = (None, [''2024-01-03.000000.zone1-1''])"
  by (simp add: pruneBackups_def pruneEnvA_def storageA_def parseBackupTime_def removeBackup_def
      timeSince_def minDuration_def maxDuration_def)

lemma pruneBackups_storageA_disabled:
  "pruneBackups (pruneEnvA\<lparr>minRetentionTime := 0\<rparr>) storageA = (None, storageA)"
  by (simp add: pruneBackups_def pruneEnvA_def)

theorem pruneBackups_retention_witness:
  "pruneBackups pruneEnvA storageA = (None, [''2024-01-03.000000.zone1-1''])
   \<and> [''2024-01-03.000000.zone1-1''] \<noteq> storageA
   \<and> minRetentionCount pruneEnvA \<le> int (length [''2024-01-03.000000.zone1-1''])
   \<and> minRetentionTime (pruneEnvA\<lparr>minRetentionTime := 0\<rparr>) = 0
   \<and> pruneBackups (pruneEnvA\<lparr>minRetentionTime := 0\<rparr>) storageA = (None, storageA)"
  using pruneBackups_retention [OF pruneBackups_storageA]
    pruneBackups_retention [OF pruneBackups_storageA_disabled]
    pruneBackups_storageA pruneBackups_storageA_disabled
  by (simp add: storageA_def)

section \<open>The properties at the example inputs\<close>

lemma getWorkflowState_A:
  "getWorkflowState (topoA tsA r w) ''ks2'' ''wf1'' ign = Inr (tsA, stateA r w)"
  by (simp add: getWorkflowState_def newState_def moveTablesState_def topoA_def tsA_def stateA_def
      tableWritesSwitched_def hasSuffix_def reverseSuffix_def Let_def)

lemma tsA_fields:
  "workflow tsA = ''wf1''" "reverseWorkflow tsA = ''wf1_reverse''" "migrationId tsA = 42"
  "sourceKeyspace tsA = ''ks1''" "targetKeyspace tsA = ''ks2''" "tables tsA = [''t1'']"
  "frozen tsA = False" "workflowType tsA = MoveTables" "migrationType tsA = TABLES"
  "isPartialMigration tsA = False" "isMultiTenant tsA = False"
  "sourceKSSharded tsA = Some False"
  "SourceShards tsA = [\<lparr>ShardName = ''0'', IsPrimaryServing = True\<rparr>]"
  "TargetShards tsA = [\<lparr>ShardName = ''0'', IsPrimaryServing = True\<rparr>]"
  by (simp_all add: tsA_def)

lemma stateA_fields:
  "Workflow (stateA r w) = ''wf1''" "WorkflowType (stateA r w) = TypeMoveTables"
  "WritesSwitched (stateA r w) = w" "IsReverse (stateA r w) = False"
  "ReplicaCellsSwitched (stateA r w) = (if r then [''zone1''] else [])"
  "RdonlyCellsSwitched (stateA r w) = (if r then [''zone1''] else [])"
  "ReplicaCellsNotSwitched (stateA r w) = (if r then [] else [''zone1''])"
  "RdonlyCellsNotSwitched (stateA r w) = (if r then [] else [''zone1''])"
  by (simp_all add: stateA_def)

lemma envA_fields:
  "outcome (envA tp wfl) = (\<lambda>a. None)" "DurationFromProto (envA tp wfl) = durationOfProto"
  "parseTabletTypes (envA tp wfl) = tabletTypesOf" "topo (envA tp wfl) = tp"
  "topoAfter (envA tp wfl) = tp" "GetWorkflow (envA tp wfl) = (\<lambda>ks wn shards. Inr wfl)"
  "refreshResult (envA tp wfl) = (\<lambda>ks sh. (False, [], None))"
  "journalsExist (envA tp wfl) = False" "journalWorkflows (envA tp wfl) = []"
  "stoppedWorkflows (envA tp wfl) = []" "targetSequenceMetadata (envA tp wfl) = []"
  "rdonlyTabletsExist (envA tp wfl) = True" "stateString (envA tp wfl) = Workflow"
  by (simp_all add: envA_def)

lemma reqA_fields:
  "reqKeyspace reqA = ''ks2''" "reqWorkflow reqA = ''wf1''" "Cells reqA = []"
  "TabletTypes reqA = [PRIMARY]" "MaxReplicationLagAllowed reqA = None"
  "EnableReverseReplication reqA = False" "Direction reqA = DirectionForward"
  "Timeout reqA = None" "DryRun reqA = False" "InitializeTargetSequences reqA = False"
  "reqShards reqA = []" "Force reqA = False"
  by (simp_all add: reqA_def)

text \<open>
  The floats at some inputs: the 64-bit float nearest to one tenth; whole seconds of
  durations, where the sum of \<open>Seconds\<close> is rounded up to the next second from
  \<open>2^24\<close> seconds on.
\<close>

lemma float64_tenth: "float64 (1 / 10) = 3602879701896397 / 36028797018963968"
  by code_simp

lemma wholeSeconds_examples:
  "wholeSeconds 1999999999 = 1" "wholeSeconds (- 1500000000) = - 1"
  "wholeSeconds 16777215999999999 = 16777215" "wholeSeconds 16777216999999999 = 16777217"
  by code_simp+





text \<open>
  C1 at a request whose timeout is half a second.
\<close>

theorem switchTraffic_short_timeout_witness:
  "DurationFromProto (envA (topoA tsA False False) (workflowA ''Running'' [] 0))
     (Timeout (reqA\<lparr>Timeout := Some \<lparr>Seconds = 0, Nanos = 500000000\<rparr>\<rparr>))
     = (500000000, True, None)
   \<and> 500000000 < second
   \<and> WorkflowSwitchTraffic (envA (topoA tsA False False) (workflowA ''Running'' [] 0))
        (reqA\<lparr>Timeout := Some \<lparr>Seconds = 0, Nanos = 500000000\<rparr>\<rparr>) = (Inr None, [])
   \<and> Code (returnedError (WorkflowSwitchTraffic (envA (topoA tsA False False) (workflowA ''Running'' [] 0))
        (reqA\<lparr>Timeout := Some \<lparr>Seconds = 0, Nanos = 500000000\<rparr>\<rparr>))) = OK"
  using switchTraffic_short_timeout_returns_nil
    [of "envA (topoA tsA False False) (workflowA ''Running'' [] 0)"
        "reqA\<lparr>Timeout := Some \<lparr>Seconds = 0, Nanos = 500000000\<rparr>\<rparr>" 500000000]
  by (simp add: envA_fields durationOfProto_def second_def returnedError_def Code_def)

lemma logs_A:
  "preJournalLog reqA tsA =
     [Validate, LockKeyspace False ''ks1'' ''SwitchWrites'', LockKeyspace False ''ks2'' ''SwitchWrites'',
      MirrorTableTraffic False [PRIMARY] 0, CheckJournals]"
  "pointOfNoReturnLog reqA tsA sw =
     [CheckKeyspaceLocked 5 ''ks1'', CheckKeyspaceLocked 5 ''ks2'', CreateJournals False sw,
      AllowTargetWrites False, ChangeRouting False, StreamMigraterfinalize False sw,
      FreezeTargetVReplication False]"
  "unlockLog reqA tsA = [UnlockKeyspace False ''ks2'', UnlockKeyspace False ''ks1'']"
  by (simp_all add: preJournalLog_def pointOfNoReturnLog_def unlockLog_def reqA_fields tsA_fields)

text \<open>
  C2, as amended, at a switch of writes that finds journals, at a cancellation that finds
  journals, at a cancellation that finds none, and at a frozen workflow.
\<close>

theorem switchWrites_journals_witness:
  "journalsExist ((envA (topoA tsA False False) (workflowA ''Running'' [] 0))\<lparr>journalsExist := True\<rparr>)
   \<and> \<not> frozen tsA
   \<and> snd (switchWrites ((envA (topoA tsA False False) (workflowA ''Running'' [] 0))\<lparr>journalsExist := True\<rparr>)
           reqA tsA DefaultTimeout False) =
       [Validate, LockKeyspace False ''ks1'' ''SwitchWrites'', LockKeyspace False ''ks2'' ''SwitchWrites'',
        MirrorTableTraffic False [PRIMARY] 0, CheckJournals, GatherPositions,
        CheckKeyspaceLocked 5 ''ks1'', CheckKeyspaceLocked 5 ''ks2'', CreateJournals False [],
        AllowTargetWrites False, ChangeRouting False, StreamMigraterfinalize False [],
        FreezeTargetVReplication False, UnlockKeyspace False ''ks2'', UnlockKeyspace False ''ks1'']
   \<and> switchWrites ((envA (topoA tsA False False) (workflowA ''Running'' [] 0))\<lparr>journalsExist := True\<rparr>)
           reqA tsA DefaultTimeout True =
       (Inl (Wrapping (Errorf FAILED_PRECONDITION
          ''traffic switching has reached the point of no return, cannot cancel'') ''invalid cancel''),
        [Validate, LockKeyspace False ''ks1'' ''SwitchWrites'', LockKeyspace False ''ks2'' ''SwitchWrites'',
         MirrorTableTraffic False [PRIMARY] 0, CheckJournals,
         UnlockKeyspace False ''ks2'', UnlockKeyspace False ''ks1''])
   \<and> \<not> journalsExist (envA (topoA tsA False False) (workflowA ''Running'' [] 0))
   \<and> snd (switchWrites (envA (topoA tsA False False) (workflowA ''Running'' [] 0))
           reqA tsA DefaultTimeout True) =
       [Validate, LockKeyspace False ''ks1'' ''SwitchWrites'', LockKeyspace False ''ks2'' ''SwitchWrites'',
        MirrorTableTraffic False [PRIMARY] 0, CheckJournals, BuildStreamMigrator,
        CancelMigration False, UnlockKeyspace False ''ks2'', UnlockKeyspace False ''ks1'']
   \<and> frozen tsF
   \<and> switchWrites (envA (topoA tsF False True) (workflowA ''Running'' ''FROZEN'' 0))
           reqA tsF DefaultTimeout False = (Inr (0, None), [])"
  using
    switchWrites_journals
      [of "envA (topoA tsF False True) (workflowA ''Running'' ''FROZEN'' 0)"
          reqA tsF DefaultTimeout False]
    switchWrites_journals
      [of "(envA (topoA tsA False False) (workflowA ''Running'' [] 0))\<lparr>journalsExist := True\<rparr>"
          reqA tsA DefaultTimeout False]
    switchWrites_journals
      [of "(envA (topoA tsA False False) (workflowA ''Running'' [] 0))\<lparr>journalsExist := True\<rparr>"
          reqA tsA DefaultTimeout True]
    switchWrites_journals
      [of "envA (topoA tsA False False) (workflowA ''Running'' [] 0)" reqA tsA DefaultTimeout True]
  by (simp add: logs_A envA_fields tsA_fields reqA_fields tsF_def swLogs_def)

text \<open>
  C2 as it is stated fails: on a frozen workflow \<open>switchWrites\<close> returns at once,
  journals or not.  With journals on the sources it makes no call of the tail of the
  flow, and a cancellation is not refused: both return journal id 0 and no error.
\<close>

theorem switchWrites_journals_counterexample:
  "frozen tsF
   \<and> journalsExist ((envA (topoA tsF False True) (workflowA ''Running'' ''FROZEN'' 0))\<lparr>journalsExist := True\<rparr>)
   \<and> switchWrites ((envA (topoA tsF False True) (workflowA ''Running'' ''FROZEN'' 0))\<lparr>journalsExist := True\<rparr>)
        reqA tsF DefaultTimeout False = (Inr (0, None), [])
   \<and> switchWrites ((envA (topoA tsF False True) (workflowA ''Running'' ''FROZEN'' 0))\<lparr>journalsExist := True\<rparr>)
        reqA tsF DefaultTimeout True = (Inr (0, None), [])
   \<and> returnedError
        (switchWrites ((envA (topoA tsF False True) (workflowA ''Running'' ''FROZEN'' 0))\<lparr>journalsExist := True\<rparr>)
           reqA tsF DefaultTimeout True) = None"
  by (simp add: switchWrites_def switchWritesBody_def withLogs_def swLogs_def tsF_def reqA_fields
      returnedError_def Let_def)





lemma delReqA_fields:
  "delKeyspace delReqA = ''ks2''" "delWorkflow delReqA = ''wf1''" "delKeepData delReqA = False"
  "delKeepRoutingRules delReqA = False" "delShards delReqA = []"
  "delIgnoreSourceKeyspace delReqA = False"
  by (simp_all add: delReqA_def)

text \<open>
  The flag at a workflow whose writes are switched, and at one whose writes are not.
\<close>

lemma workflowDelete_writes_switched_example:
  "getWorkflowState (topo (envA (topoA tsA False True) (workflowA ''Running'' [] 0)))
      (delKeyspace delReqA) (delWorkflow delReqA) (delIgnoreSourceKeyspace delReqA)
     = Inr (tsA, stateA False True)
   \<and> WritesSwitched (stateA False True)
   \<and> WorkflowDelete (envA (topoA tsA False True) (workflowA ''Running'' [] 0)) cleanupA delReqA
       = (Inl ErrWorkflowDeleteWritesSwitched, [])
   \<and> \<not> WritesSwitched (stateA False False)
   \<and> returnedError (WorkflowDelete (envA (topoA tsA False False) (workflowA ''Running'' [] 0))
        cleanupA delReqA) = None
   \<and> DeleteVReplicationWorkflow [] \<in>
        set (snd (WorkflowDelete (envA (topoA tsA False False) (workflowA ''Running'' [] 0))
          cleanupA delReqA))"
proof -
  have g: "getWorkflowState (topo (envA (topoA tsA False w) (workflowA ''Running'' [] 0)))
      (delKeyspace delReqA) (delWorkflow delReqA) (delIgnoreSourceKeyspace delReqA)
     = Inr (tsA, stateA False w)" for w
    by (simp add: envA_fields delReqA_fields getWorkflowState_A)
  from workflowDelete_writes_switched [OF g [of True], of cleanupA]
    workflowDelete_writes_switched [OF g [of False], of cleanupA] g [of True]
  show ?thesis
    by (auto simp: stateA_fields envA_fields tsA_fields delReqA_fields)
qed

lemma getWorkflowState_P:
  "getWorkflowState topoP ''ks2'' ''wf1'' ign = Inr (tsP, stateP)"
  by (simp add: getWorkflowState_def newState_def moveTablesState_def shardRulesState_def topoP_def
      topoA_def tsA_def tsP_def stateP_def hasSuffix_def reverseSuffix_def Let_def)

text \<open>
  C4 at the partial migration of shard \<open>-80\<close> whose traffic is switched: the
  workflow is deleted.
\<close>

theorem workflowDelete_partial_migration_witness:
  "getWorkflowState (topo (envA topoP (workflowA ''Running'' [] 0)))
      (delKeyspace delReqA) (delWorkflow delReqA) (delIgnoreSourceKeyspace delReqA)
     = Inr (tsP, stateP)
   \<and> workflowType tsP = MoveTables \<and> migrationType tsP = TABLES
   \<and> isPartialMigration tsP \<and> \<not> isMultiTenant tsP
   \<and> ShardsAlreadySwitched stateP = [''-80'']
   \<and> \<not> WritesSwitched stateP
   \<and> returnedError (WorkflowDelete (envA topoP (workflowA ''Running'' [] 0)) cleanupA delReqA) = None
   \<and> snd (WorkflowDelete (envA topoP (workflowA ''Running'' [] 0)) cleanupA delReqA) =
       [LockName ''ks2/wf1'' ''WorkflowDelete'', DropTargets False False False,
        DeleteVReplicationWorkflow [], UnlockName ''ks2/wf1'']"
proof -
  have g: "getWorkflowState (topo (envA topoP (workflowA ''Running'' [] 0)))
      (delKeyspace delReqA) (delWorkflow delReqA) (delIgnoreSourceKeyspace delReqA)
     = Inr (tsP, stateP)"
    by (simp add: envA_fields delReqA_fields getWorkflowState_P)
  have f: "workflowType tsP = MoveTables" "migrationType tsP = TABLES" "isPartialMigration tsP"
    "\<not> isMultiTenant tsP" "ShardsAlreadySwitched stateP = [''-80'']"
    "workflowLockName tsP = ''ks2/wf1''"
    by (simp_all add: tsP_def tsA_def stateP_def workflowLockName_def)
  from workflowDelete_partial_migration [OF g f(1,2,3,4), of cleanupA] g f
  show ?thesis
    by (simp add: envA_fields delReqA_fields)
qed

lemma cmpReqA_fields:
  "cmpWorkflow cmpReqA = ''wf1''" "cmpTargetKeyspace cmpReqA = ''ks2''" "cmpKeepData cmpReqA = False"
  "cmpKeepRoutingRules cmpReqA = False" "RenameTables cmpReqA = False" "cmpDryRun cmpReqA = False"
  "cmpIgnoreSourceKeyspace cmpReqA = False"
  by (simp_all add: cmpReqA_def)

text \<open>
  C5 at a workflow whose reads are not switched, and at one whose traffic is all switched.
\<close>

theorem moveTablesComplete_requires_switched_witness:
  "getWorkflowState (topo (envA (topoA tsA False True) (workflowA ''Running'' [] 0)))
      (cmpTargetKeyspace cmpReqA) (cmpWorkflow cmpReqA) (cmpIgnoreSourceKeyspace cmpReqA)
     = Inr (tsA, stateA False True)
   \<and> WorkflowType (stateA False True) \<noteq> TypeMigrate
   \<and> ReplicaCellsNotSwitched (stateA False True) \<noteq> []
   \<and> MoveTablesComplete (envA (topoA tsA False True) (workflowA ''Running'' [] 0)) cleanupA cmpReqA
       = (Inl ErrWorkflowCompleteNotFullySwitched,
          [LockName ''ks2/wf1'' ''MoveTablesComplete'', UnlockName ''ks2/wf1''])
   \<and> WritesSwitched (stateA True True)
   \<and> ReplicaCellsNotSwitched (stateA True True) = []
   \<and> RdonlyCellsNotSwitched (stateA True True) = []
   \<and> snd (MoveTablesComplete (envA (topoA tsA True True) (workflowA ''Running'' [] 0)) cleanupA cmpReqA)
       = [LockName ''ks2/wf1'' ''MoveTablesComplete'', DropSources False False False False False,
          UnlockName ''ks2/wf1'']
   \<and> returnedError (MoveTablesComplete (envA (topoA tsA True True) (workflowA ''Running'' [] 0))
        cleanupA cmpReqA) = None"
proof -
  have g: "getWorkflowState (topo (envA (topoA tsA r True) (workflowA ''Running'' [] 0)))
      (cmpTargetKeyspace cmpReqA) (cmpWorkflow cmpReqA) (cmpIgnoreSourceKeyspace cmpReqA)
     = Inr (tsA, stateA r True)" for r
    by (simp add: envA_fields cmpReqA_fields getWorkflowState_A)
  have m: "MoveTablesComplete (envA (topoA tsA False True) (workflowA ''Running'' [] 0)) cleanupA cmpReqA
       = (Inl ErrWorkflowCompleteNotFullySwitched,
          [LockName ''ks2/wf1'' ''MoveTablesComplete'', UnlockName ''ks2/wf1''])"
    using g [of False]
    by (simp add: MoveTablesComplete_def moveTablesCompleteLocked_def envA_fields tsA_fields
        stateA_fields unlockLocal_def Let_def)
  from moveTablesComplete_requires_switched [OF g [of False], of cleanupA]
    moveTablesComplete_requires_switched [OF g [of True], of cleanupA] g [of False] m
  show ?thesis
    by (auto simp: stateA_fields envA_fields tsA_fields cmpReqA_fields workflowLockName_def)
qed

lemma getWorkflowState_M:
  "getWorkflowState (topoA tsM r w) ''ks2'' ''wf1'' ign = Inr (tsM, stateM)"
  by (simp add: getWorkflowState_def newState_def moveTablesState_def topoA_def tsA_def tsM_def
      stateM_def hasSuffix_def reverseSuffix_def Let_def)

lemma getWorkflowState_R:
  "getWorkflowState (topoA tsA False False) ''ks2'' ''wf1_reverse'' ign = Inr (tsA, stateR)"
  by (simp add: getWorkflowState_def newState_def moveTablesState_def topoA_def tsA_def stateA_def
      stateR_def tableWritesSwitched_def hasSuffix_def reverseSuffix_def Let_def)

text \<open>
  C6, as amended, at a request to reverse primary traffic of a multi-tenant migration.
\<close>

theorem multiTenant_reverse_writes_rejected_witness:
  "getWorkflowState (topo (envA (topoA tsM False False) (workflowA ''Running'' [] 0)))
      (reqKeyspace (reqA\<lparr>Direction := DirectionBackward\<rparr>))
      (reqWorkflow (reqA\<lparr>Direction := DirectionBackward\<rparr>)) False = Inr (tsM, stateM)
   \<and> isMultiTenant tsM
   \<and> parseTabletTypes (envA (topoA tsM False False) (workflowA ''Running'' [] 0))
        (TabletTypes (reqA\<lparr>Direction := DirectionBackward\<rparr>)) = Inr (False, False, True)
   \<and> WorkflowSwitchTraffic (envA (topoA tsM False False) (workflowA ''Running'' [] 0))
        (reqA\<lparr>Direction := DirectionBackward\<rparr>) =
       (Inl (Errorf INVALID_ARGUMENT ''cannot reverse write traffic for multi-tenant migrations''), [])
   \<and> Code (returnedError (WorkflowSwitchTraffic (envA (topoA tsM False False) (workflowA ''Running'' [] 0))
        (reqA\<lparr>Direction := DirectionBackward\<rparr>))) = INVALID_ARGUMENT"
proof -
  let ?e = "envA (topoA tsM False False) (workflowA ''Running'' [] 0)"
  let ?r = "reqA\<lparr>Direction := DirectionBackward\<rparr>"
  have g: "getWorkflowState (topo ?e) (reqKeyspace ?r) (reqWorkflow ?r) False = Inr (tsM, stateM)"
    by (simp add: envA_fields reqA_fields getWorkflowState_M)
  have m: "isMultiTenant tsM" by (simp add: tsM_def)
  have d: "Direction ?r = DirectionBackward" by simp
  have p: "parseTabletTypes ?e (TabletTypes ?r) = Inr (False, False, True)"
    by (simp add: envA_fields reqA_fields tabletTypesOf_def)
  from multiTenant_reverse_writes_rejected [OF g m d p,
      where d = 0 and isSet = False and lag = 0 and lagSet = False and st = stateM]
  have "WorkflowSwitchTraffic ?e ?r =
       (Inl (Errorf INVALID_ARGUMENT ''cannot reverse write traffic for multi-tenant migrations''), [])
   \<and> Code (returnedError (WorkflowSwitchTraffic ?e ?r)) = INVALID_ARGUMENT"
    by (auto simp: envA_fields reqA_fields durationOfProto_def DefaultTimeout_def second_def
        stateM_def topoA_def)
  with g m p show ?thesis by auto
qed

lemma getWorkflowState_U:
  "getWorkflowState topoU ''ks2'' ''wf1'' ign
     = Inl (Errorf UNAVAILABLE ''keyspace routing rules cannot be read'')"
  by (simp add: getWorkflowState_def newState_def moveTablesState_def topoU_def topoA_def tsA_def
      tsM_def hasSuffix_def reverseSuffix_def Let_def)

text \<open>
  C6 as it is stated fails: a request to reverse primary traffic of a multi-tenant
  migration whose keyspace routing rules cannot be read returns the error of that read,
  of code \<open>UNAVAILABLE\<close>; and one whose timeout is half a second returns no error
  at all.
\<close>

theorem multiTenant_reverse_writes_counterexample:
  "isMultiTenant tsM
   \<and> WorkflowSwitchTraffic (envA topoU (workflowA ''Running'' [] 0))
        (reqA\<lparr>Direction := DirectionBackward\<rparr>)
      = (Inl (Errorf UNAVAILABLE ''keyspace routing rules cannot be read''), [])
   \<and> Code (returnedError (WorkflowSwitchTraffic (envA topoU (workflowA ''Running'' [] 0))
        (reqA\<lparr>Direction := DirectionBackward\<rparr>))) = UNAVAILABLE
   \<and> WorkflowSwitchTraffic (envA (topoA tsM False False) (workflowA ''Running'' [] 0))
        (reqA\<lparr>Direction := DirectionBackward, Timeout := Some \<lparr>Seconds = 0, Nanos = 500000000\<rparr>\<rparr>)
      = (Inr None, [])
   \<and> Code (returnedError (WorkflowSwitchTraffic (envA (topoA tsM False False) (workflowA ''Running'' [] 0))
        (reqA\<lparr>Direction := DirectionBackward, Timeout := Some \<lparr>Seconds = 0, Nanos = 500000000\<rparr>\<rparr>)))
      = OK"
  by (simp add: WorkflowSwitchTraffic_def switchTrafficPrepare_def envA_fields reqA_fields
      durationOfProto_def tabletTypesOf_def getWorkflowState_U DefaultTimeout_def second_def
      returnNil_def Wrap_def returnedError_def Code_def Errorf_def tsM_def Let_def)

lemma mirReqA_fields:
  "mirKeyspace mirReqA = ''ks2''" "mirWorkflow mirReqA = ''wf1''" "mirTabletTypes mirReqA = [REPLICA]"
  by (simp_all add: mirReqA_def)

text \<open>
  The refusals at a reverse workflow, and at a workflow whose replica reads are switched.
\<close>

lemma mirrorTraffic_refusals_example:
  "getWorkflowState (topo (envA (topoA tsA False False) (workflowA ''Running'' [] 0)))
      (mirKeyspace (mirReqA\<lparr>mirWorkflow := ''wf1_reverse''\<rparr>))
      (mirWorkflow (mirReqA\<lparr>mirWorkflow := ''wf1_reverse''\<rparr>)) False = Inr (tsA, stateR)
   \<and> IsReverse stateR
   \<and> Code (returnedError (WorkflowMirrorTraffic (envA (topoA tsA False False) (workflowA ''Running'' [] 0))
        (mirReqA\<lparr>mirWorkflow := ''wf1_reverse''\<rparr>))) = INVALID_ARGUMENT
   \<and> snd (WorkflowMirrorTraffic (envA (topoA tsA False False) (workflowA ''Running'' [] 0))
        (mirReqA\<lparr>mirWorkflow := ''wf1_reverse''\<rparr>)) = []
   \<and> getWorkflowState (topo (envA (topoA tsA True False) (workflowA ''Running'' [] 0)))
        (mirKeyspace mirReqA) (mirWorkflow mirReqA) False = Inr (tsA, stateA True False)
   \<and> REPLICA \<in> set (mirTabletTypes mirReqA)
   \<and> ReplicaCellsSwitched (stateA True False) \<noteq> []
   \<and> WorkflowMirrorTraffic (envA (topoA tsA True False) (workflowA ''Running'' [] 0)) mirReqA =
       (Inl (Errorf FAILED_PRECONDITION
          ''cannot mirror [replica] traffic for workflow wf1 at this time: traffic for those tablet types is switched''),
        [])
   \<and> Code (returnedError (WorkflowMirrorTraffic (envA (topoA tsA True False) (workflowA ''Running'' [] 0))
        mirReqA)) = FAILED_PRECONDITION"
proof -
  let ?e = "envA (topoA tsA False False) (workflowA ''Running'' [] 0)"
  let ?r = "mirReqA\<lparr>mirWorkflow := ''wf1_reverse''\<rparr>"
  let ?e' = "envA (topoA tsA True False) (workflowA ''Running'' [] 0)"
  have g: "getWorkflowState (topo ?e) (mirKeyspace ?r) (mirWorkflow ?r) False = Inr (tsA, stateR)"
    by (simp add: envA_fields mirReqA_fields getWorkflowState_R)
  have g': "getWorkflowState (topo ?e') (mirKeyspace mirReqA) (mirWorkflow mirReqA) False
      = Inr (tsA, stateA True False)"
    by (simp add: envA_fields mirReqA_fields getWorkflowState_A)
  have r: "IsReverse stateR" by (simp add: stateR_def)
  from mirrorTraffic_refusals [OF g] r
  have a: "Code (returnedError (WorkflowMirrorTraffic ?e ?r)) = INVALID_ARGUMENT
      \<and> snd (WorkflowMirrorTraffic ?e ?r) = []"
    by blast
  from mirrorTraffic_refusals [OF g']
  have b: "WorkflowMirrorTraffic ?e' mirReqA =
       (Inl (Errorf FAILED_PRECONDITION
          ''cannot mirror [replica] traffic for workflow wf1 at this time: traffic for those tablet types is switched''),
        [])
      \<and> Code (returnedError (WorkflowMirrorTraffic ?e' mirReqA)) = FAILED_PRECONDITION"
    by (auto simp: stateA_fields tsA_fields mirReqA_fields)
  from g g' r a b show ?thesis by (auto simp: mirReqA_fields stateA_fields)
qed

lemma getWorkflowState_Z:
  "getWorkflowState (topoA tsZ r w) ''ks2'' ''wf1'' ign = Inr (tsZ, stateA r w)"
  by (simp add: getWorkflowState_def newState_def moveTablesState_def topoA_def tsA_def tsZ_def
      stateA_def tableWritesSwitched_def hasSuffix_def reverseSuffix_def Let_def)

text \<open>
  C7 at a Materialize workflow and a request to mirror half of its replica traffic: the
  traffic is mirrored.
\<close>

theorem mirrorTraffic_materialize_witness:
  "getWorkflowState (topo (envA (topoA tsZ False False) (workflowA ''Running'' [] 0)))
      (mirKeyspace mirReqA) (mirWorkflow mirReqA) False = Inr (tsZ, stateA False False)
   \<and> workflowType tsZ = Materialize
   \<and> WorkflowType (stateA False False) = TypeMoveTables
   \<and> returnedError (WorkflowMirrorTraffic (envA (topoA tsZ False False) (workflowA ''Running'' [] 0))
        mirReqA) = None
   \<and> snd (WorkflowMirrorTraffic (envA (topoA tsZ False False) (workflowA ''Running'' [] 0)) mirReqA) =
       [Validate, MirrorTableTraffic False [REPLICA] 50]"
proof -
  have g: "getWorkflowState (topo (envA (topoA tsZ False False) (workflowA ''Running'' [] 0)))
      (mirKeyspace mirReqA) (mirWorkflow mirReqA) False = Inr (tsZ, stateA False False)"
    by (simp add: envA_fields mirReqA_fields getWorkflowState_Z)
  have f: "workflowType tsZ = Materialize" "migrationType tsZ = TABLES" "\<not> isPartialMigration tsZ"
    "\<not> isMultiTenant tsZ" "\<not> IsReverse (stateA False False)"
    by (simp_all add: tsZ_def tsA_def stateA_def)
  from mirrorTraffic_materialize [OF g f] g f
  show ?thesis
    by (simp add: envA_fields mirReqA_fields mirReqA_def stateA_fields)
qed

lemma showNat_1: "showNat (Suc 0) = ''1''"
  by code_simp

text \<open>
  C8 at a stream throttled at second 1000, seen at second 1030 and at second 1060.
\<close>

theorem streamThrottled_window_witness:
  "streamThrottled 1030000 streamA
   \<and> \<not> streamThrottled 1060000 streamA
   \<and> streamPip 1030000 (\<lambda>s. if s = ''Running'' then Some [streamA] else None) ''Running''
       = Some (''Throttled'', ''1 running stream (1 throttled in vcopier)'', 1)"
proof -
  have a: "streamThrottled 1030000 streamA"
    using streamThrottled_window [of 1030000 streamA "''Running''"
        "\<lambda>s. if s = ''Running'' then Some [streamA] else None" "[streamA]"]
    by (simp add: streamA_def)
  have b: "\<not> streamThrottled 1060000 streamA"
    using streamThrottled_window [of 1060000 streamA "''Running''"
        "\<lambda>s. if s = ''Running'' then Some [streamA] else None" "[streamA]"]
    by (simp add: streamA_def)
  have c: "streamPip 1030000 (\<lambda>s. if s = ''Running'' then Some [streamA] else None) ''Running''
       = Some (''Throttled'', ''1 running stream (1 throttled in vcopier)'', 1)"
    using a by (simp add: streamPip_def streamA_def showNat_1 Let_def del: showNat.simps)
  from a b c show ?thesis by simp
qed

end
